theory Spec2Isabelle
  imports Main
begin

section \<open>Beartype configurations: \<^verbatim>\<open>beartype/_conf/confcls.py\<close>\<close>

subsection \<open>Python values received by \<^verbatim>\<open>BeartypeConf.__new__\<close>\<close>

text \<open>
  The constructor is keyword-only and untyped at run time, so each parameter is an
  arbitrary Python object. The values below are the ones the validation distinguishes:
  \<^verbatim>\<open>None\<close>, booleans, integers, strings, members of the \<^verbatim>\<open>BeartypeStrategy\<close>
  enumeration, classes, and an unhashable object (a list or a dictionary, named by its
  representation). Floating-point numbers are left out.
\<close>

text \<open>
  Modelled from the spec: the enumeration \<^verbatim>\<open>BeartypeStrategy\<close> is not among the sources.
  Its members are the constant-time strategy \<^verbatim>\<open>O1\<close> and the linear strategy \<^verbatim>\<open>On\<close>.
\<close>

datatype BeartypeStrategy = O1 | On

text \<open>
  A class is the private default warning category
  \<^verbatim>\<open>_BeartypeConfReduceDecoratorExceptionToWarningDefault\<close> (a \<^verbatim>\<open>Warning\<close> subclass: the
  module itself calls \<^verbatim>\<open>BeartypeConf()\<close> with it), another \<^verbatim>\<open>Warning\<close> subclass, or a
  class that is not a warning category.
\<close>

datatype pycls = WarningDefault | WarningSub string | OtherCls string

datatype pyval =
    PNone
  | PBool bool
  | PInt int
  | PStr string
  | PStrategy BeartypeStrategy
  | PCls pycls
  | PUnhashable string

text \<open>Python's \<^verbatim>\<open>==\<close>: a boolean is an integer, so \<^verbatim>\<open>True == 1\<close> and \<^verbatim>\<open>False == 0\<close>.\<close>

fun py_eq :: "pyval \<Rightarrow> pyval \<Rightarrow> bool" where
  "py_eq PNone PNone = True"
| "py_eq (PBool a) (PBool b) = (a = b)"
| "py_eq (PBool a) (PInt i) = (i = (if a then 1 else 0))"
| "py_eq (PInt i) (PBool a) = (i = (if a then 1 else 0))"
| "py_eq (PInt i) (PInt j) = (i = j)"
| "py_eq (PStr a) (PStr b) = (a = b)"
| "py_eq (PStrategy a) (PStrategy b) = (a = b)"
| "py_eq (PCls a) (PCls b) = (a = b)"
| "py_eq _ _ = False"

fun hashable :: "pyval \<Rightarrow> bool" where
  "hashable (PUnhashable _) = False"
| "hashable _ = True"

text \<open>\<^verbatim>\<open>isinstance(x, bool)\<close>, \<^verbatim>\<open>isinstance(x, NoneTypeOr[bool])\<close>,
  \<^verbatim>\<open>isinstance(x, BeartypeStrategy)\<close> and \<^verbatim>\<open>is_type_subclass(x, Warning)\<close>.\<close>

fun isinstance_bool :: "pyval \<Rightarrow> bool" where
  "isinstance_bool (PBool _) = True"
| "isinstance_bool _ = False"

fun isinstance_NoneTypeOr_bool :: "pyval \<Rightarrow> bool" where
  "isinstance_NoneTypeOr_bool PNone = True"
| "isinstance_NoneTypeOr_bool (PBool _) = True"
| "isinstance_NoneTypeOr_bool _ = False"

fun isinstance_BeartypeStrategy :: "pyval \<Rightarrow> bool" where
  "isinstance_BeartypeStrategy (PStrategy _) = True"
| "isinstance_BeartypeStrategy _ = False"

fun is_type_subclass_Warning :: "pyval \<Rightarrow> bool" where
  "is_type_subclass_Warning (PCls WarningDefault) = True"
| "is_type_subclass_Warning (PCls (WarningSub _)) = True"
| "is_type_subclass_Warning _ = False"

subsection \<open>Parameters, configuration objects and the process-wide state\<close>

record conf_params =
  arg_claw_is_pep526 :: pyval
  arg_is_color :: pyval
  arg_is_debug :: pyval
  arg_is_pep484_tower :: pyval
  arg_warning_cls_on_decorator_exception :: pyval
  arg_strategy :: pyval

text \<open>The defaults of the signature of \<^verbatim>\<open>__new__\<close>.\<close>

definition conf_params_default :: conf_params where
  "conf_params_default =
     \<lparr> arg_claw_is_pep526 = PBool True,
       arg_is_color = PNone,
       arg_is_debug = PBool False,
       arg_is_pep484_tower = PBool False,
       arg_warning_cls_on_decorator_exception = PCls WarningDefault,
       arg_strategy = PStrategy O1 \<rparr>"

text \<open>The tuple \<^verbatim>\<open>conf_args\<close>, in the order the source builds it.\<close>

definition conf_args_of :: "conf_params \<Rightarrow> pyval list" where
  "conf_args_of p =
     [ arg_claw_is_pep526 p,
       arg_is_color p,
       arg_is_debug p,
       arg_is_pep484_tower p,
       arg_strategy p,
       arg_warning_cls_on_decorator_exception p ]"

text \<open>The slots of a \<^verbatim>\<open>BeartypeConf\<close> object (the leading underscore of each slot dropped).\<close>

record BeartypeConf =
  claw_is_pep526 :: pyval
  conf_args :: "pyval list"
  conf_kwargs :: "(string \<times> pyval) list"
  is_color :: pyval
  is_debug :: pyval
  is_pep484_tower :: pyval
  is_warning_cls_on_decorator_exception_set :: bool
  warning_cls_on_decorator_exception :: pyval
  strategy :: pyval

datatype conf_error =
    BeartypeConfException string
  | BeartypeConfShellVarException string
  | TypeError

datatype conf_event = LockAcquire | LockRelease | InstanceNew nat

text \<open>
  The state the constructor works on: the dictionary \<^verbatim>\<open>beartype_conf_args_to_conf\<close> (an
  association list from parameter tuples to object references, in insertion order), the
  configuration objects by reference, the next fresh reference, and the order in which
  the lock \<^verbatim>\<open>beartype_conf_lock\<close> was taken and released and instances were created.
\<close>

record conf_state =
  beartype_conf_args_to_conf :: "(pyval list \<times> nat) list"
  conf_objs :: "(nat \<times> BeartypeConf) list"
  next_ref :: nat
  events :: "conf_event list"

definition conf_state_init :: conf_state where
  "conf_state_init =
     \<lparr> beartype_conf_args_to_conf = [], conf_objs = [], next_ref = 0, events = [] \<rparr>"

text \<open>Equality of two tuples is equality of their lengths and of their items, by \<^verbatim>\<open>==\<close>.\<close>

definition tuple_eq :: "pyval list \<Rightarrow> pyval list \<Rightarrow> bool" where
  "tuple_eq xs ys = list_all2 py_eq xs ys"

text \<open>\<^verbatim>\<open>d[k]\<close> for a key that may be absent: the value of the key equal to \<^verbatim>\<open>k\<close>.\<close>

fun dict_get :: "(pyval list \<times> nat) list \<Rightarrow> pyval list \<Rightarrow> nat option" where
  "dict_get [] k = None"
| "dict_get ((k', v) # d) k = (if tuple_eq k' k then Some v else dict_get d k)"

text \<open>
  Modelled from the spec: the table \<^verbatim>\<open>SHELL_VAR_CONF_IS_COLOR_VALUE_TO_OBJ\<close> is not among
  the sources. It maps the strings the docstring of \<^verbatim>\<open>__new__\<close> names (\<^verbatim>\<open>"True"\<close>,
  \<^verbatim>\<open>"False"\<close>, \<^verbatim>\<open>"None"\<close>) to the values of the colour policy.
\<close>

definition SHELL_VAR_CONF_IS_COLOR_VALUE_TO_OBJ :: "(string \<times> pyval) list" where
  "SHELL_VAR_CONF_IS_COLOR_VALUE_TO_OBJ =
     [(''True'', PBool True), (''False'', PBool False), (''None'', PNone)]"

subsection \<open>\<^verbatim>\<open>BeartypeConf.__new__\<close>\<close>

text \<open>
  The part of \<^verbatim>\<open>__new__\<close> after the new instance exists: the default of the warning
  category, the override of \<^verbatim>\<open>is_color\<close> by the shell variable \<^verbatim>\<open>${BEARTYPE_IS_COLOR}\<close>
  (\<open>env\<close> is its value, \<open>None\<close> when it is unset), the slots, and the store into the cache.
\<close>

definition new_init ::
  "string option \<Rightarrow> conf_params \<Rightarrow> nat \<Rightarrow> conf_state \<Rightarrow> (conf_error + nat) \<times> conf_state" where
  "new_init env p self s =
     (let is_set = (arg_warning_cls_on_decorator_exception p \<noteq> PCls WarningDefault);
          warning_cls = (if is_set then arg_warning_cls_on_decorator_exception p else PNone);
          finish = (\<lambda>color.
            (Inr self,
             s\<lparr> beartype_conf_args_to_conf :=
                   beartype_conf_args_to_conf s @ [(conf_args_of p, self)],
                conf_objs := conf_objs s @
                  [(self,
                    \<lparr> claw_is_pep526 = arg_claw_is_pep526 p,
                      conf_args = conf_args_of p,
                      conf_kwargs =
                        [ (''claw_is_pep526'', arg_claw_is_pep526 p),
                          (''is_color'', color),
                          (''is_debug'', arg_is_debug p),
                          (''is_pep484_tower'', arg_is_pep484_tower p),
                          (''strategy'', arg_strategy p),
                          (''warning_cls_on_decorator_exception'', warning_cls) ],
                      is_color = color,
                      is_debug = arg_is_debug p,
                      is_pep484_tower = arg_is_pep484_tower p,
                      is_warning_cls_on_decorator_exception_set = is_set,
                      warning_cls_on_decorator_exception = warning_cls,
                      strategy = arg_strategy p \<rparr>)] \<rparr>))
      in case env of
           None \<Rightarrow> finish (arg_is_color p)
         | Some v \<Rightarrow>
            (case map_of SHELL_VAR_CONF_IS_COLOR_VALUE_TO_OBJ v of
               None \<Rightarrow> (Inl (BeartypeConfShellVarException v), s)
             | Some color \<Rightarrow> finish color))"

text \<open>
  The body of the \<^verbatim>\<open>with beartype_conf_lock:\<close> block. The membership test hashes the
  tuple first, which raises \<^verbatim>\<open>TypeError\<close> on an unhashable item. A cached configuration is
  returned before any validation. The instance is created by \<^verbatim>\<open>super().__new__(cls)\<close>
  once the six parameters are valid.
\<close>

definition new_locked ::
  "string option \<Rightarrow> conf_params \<Rightarrow> conf_state \<Rightarrow> (conf_error + nat) \<times> conf_state" where
  "new_locked env p s =
     (if \<not> list_all hashable (conf_args_of p) then (Inl TypeError, s)
      else case dict_get (beartype_conf_args_to_conf s) (conf_args_of p) of
        Some r \<Rightarrow> (Inr r, s)
      | None \<Rightarrow>
         if \<not> isinstance_bool (arg_claw_is_pep526 p)
           then (Inl (BeartypeConfException ''claw_is_pep526''), s)
         else if \<not> isinstance_NoneTypeOr_bool (arg_is_color p)
           then (Inl (BeartypeConfException ''is_color''), s)
         else if \<not> isinstance_bool (arg_is_debug p)
           then (Inl (BeartypeConfException ''is_debug''), s)
         else if \<not> isinstance_bool (arg_is_pep484_tower p)
           then (Inl (BeartypeConfException ''is_pep484_tower''), s)
         else if \<not> (arg_warning_cls_on_decorator_exception p = PNone \<or>
                    is_type_subclass_Warning (arg_warning_cls_on_decorator_exception p))
           then (Inl (BeartypeConfException ''warning_cls_on_decorator_exception''), s)
         else if \<not> isinstance_BeartypeStrategy (arg_strategy p)
           then (Inl (BeartypeConfException ''strategy''), s)
         else
           new_init env p (next_ref s)
             (s\<lparr> next_ref := Suc (next_ref s),
                events := events s @ [InstanceNew (next_ref s)] \<rparr>))"

text \<open>\<^verbatim>\<open>__new__\<close>: the lock is taken, the block runs, and the lock is released on the
  way out, be it a return or an exception.\<close>

definition BeartypeConf_new ::
  "string option \<Rightarrow> conf_params \<Rightarrow> conf_state \<Rightarrow> (conf_error + nat) \<times> conf_state" where
  "BeartypeConf_new env p s =
     (case new_locked env p (s\<lparr> events := events s @ [LockAcquire] \<rparr>) of
        (r, s') \<Rightarrow> (r, s'\<lparr> events := events s' @ [LockRelease] \<rparr>))"


text \<open>\<^verbatim>\<open>BeartypeConf.__eq__\<close> on two configurations: equality of their \<^verbatim>\<open>_conf_args\<close>.\<close>

definition BeartypeConf_eq :: "BeartypeConf \<Rightarrow> BeartypeConf \<Rightarrow> bool" where
  "BeartypeConf_eq a b = tuple_eq (conf_args a) (conf_args b)"


text \<open>Parameter records used as concrete inputs below.\<close>

definition params_is_debug_int :: conf_params where
  "params_is_debug_int = conf_params_default\<lparr> arg_is_debug := PInt 1 \<rparr>"

definition params_is_debug_zero :: conf_params where
  "params_is_debug_zero = conf_params_default\<lparr> arg_is_debug := PInt 0 \<rparr>"

definition params_color_True :: conf_params where
  "params_color_True = conf_params_default\<lparr> arg_is_color := PBool True \<rparr>"

definition params_color_False :: conf_params where
  "params_color_False = conf_params_default\<lparr> arg_is_color := PBool False \<rparr>"



section \<open>Attribute validators: \<^verbatim>\<open>beartype/vale/_valeisobj.py\<close>\<close>

text \<open>
  An object under validation is \<^verbatim>\<open>None\<close>, an integer, a string, the singleton \<^verbatim>\<open>SENTINEL\<close>
  of \<^verbatim>\<open>beartype._util.utilobject\<close>, or an instance with the attributes it defines. The
  attributes that Python's builtin values carry (such as \<^verbatim>\<open>int.real\<close>) are not modelled.
\<close>

datatype obj = ONone | OInt int | OStr string | SENTINEL | OInstance "(string \<times> obj) list"

text \<open>\<^verbatim>\<open>getattr(pith, attr_name, default)\<close>: the attribute when the object defines it, the
  default otherwise; no \<^verbatim>\<open>AttributeError\<close> escapes.\<close>

fun getattr :: "obj \<Rightarrow> string \<Rightarrow> obj \<Rightarrow> obj" where
  "getattr (OInstance attrs) attr_name dflt =
     (case map_of attrs attr_name of Some v \<Rightarrow> v | None \<Rightarrow> dflt)"
| "getattr _ attr_name dflt = dflt"

text \<open>
  The class \<^verbatim>\<open>_SubscriptedIs\<close> is not among the sources. A validator is modelled by its
  tester \<^verbatim>\<open>is_valid\<close>. The code snippet \<^verbatim>\<open>is_valid_code\<close>, its locals and the representer,
  which \<^verbatim>\<open>__class_getitem__\<close> also builds for a validator, are text for the generated
  wrapper and are left out.
\<close>

record SubscriptedIs =
  is_valid :: "obj \<Rightarrow> bool"

text \<open>What \<^verbatim>\<open>IsAttr\<close> is subscripted by: one object that is not a tuple, or a tuple of items;
  an item is a validator, or an object that is no validator and defines none of the
  private attributes of one.\<close>

datatype item = AnObject obj | AValidator SubscriptedIs

datatype subscript = NonTuple item | Tuple "item list"

datatype vale_error =
    BeartypeValeSubscriptionException string
  | AttributeError string

text \<open>\<^verbatim>\<open>str.isidentifier()\<close> on ASCII text: a letter or an underscore, then letters, digits
  and underscores. Characters beyond ASCII are not modelled as identifier characters.\<close>

definition is_id_start :: "char \<Rightarrow> bool" where
  "is_id_start c =
     (let n = (of_char c :: nat) in c = CHR ''_'' \<or> (65 \<le> n \<and> n \<le> 90) \<or> (97 \<le> n \<and> n \<le> 122))"

definition is_id_continue :: "char \<Rightarrow> bool" where
  "is_id_continue c = (let n = (of_char c :: nat) in is_id_start c \<or> (48 \<le> n \<and> n \<le> 57))"

fun isidentifier :: "string \<Rightarrow> bool" where
  "isidentifier [] = False"
| "isidentifier (c # cs) = (is_id_start c \<and> list_all is_id_continue cs)"

text \<open>The closure \<^verbatim>\<open>is_valid\<close> defined inside \<^verbatim>\<open>__class_getitem__\<close>.\<close>

definition IsAttr_is_valid :: "string \<Rightarrow> SubscriptedIs \<Rightarrow> obj \<Rightarrow> bool" where
  "IsAttr_is_valid attr_name attr_validator pith =
     (let pith_attr = getattr pith attr_name SENTINEL
      in pith_attr \<noteq> SENTINEL \<and> is_valid attr_validator pith_attr)"

text \<open>
  \<^verbatim>\<open>IsAttr.__class_getitem__\<close>. The second item is first used by
  \<^verbatim>\<open>attr_validator._is_valid_code_locals\<close>, which raises \<^verbatim>\<open>AttributeError\<close> on an object
  that is not a validator. The decorator \<^verbatim>\<open>callable_cached\<close> only memoizes the result.
\<close>

definition IsAttr_class_getitem :: "subscript \<Rightarrow> vale_error + SubscriptedIs" where
  "IsAttr_class_getitem args =
     (case args of
        NonTuple _ \<Rightarrow> Inl (BeartypeValeSubscriptionException ''subscripted by one non-tuple argument'')
      | Tuple items \<Rightarrow>
         if length items \<noteq> 2 then
           (if items \<noteq> []
              then Inl (BeartypeValeSubscriptionException ''subscripted by three or more arguments'')
              else Inl (BeartypeValeSubscriptionException ''subscripted by empty tuple''))
         else
           (let attr_name = items ! 0; attr_validator = items ! 1 in
            case attr_name of
              AnObject (OStr name) \<Rightarrow>
                if name = [] then
                  Inl (BeartypeValeSubscriptionException ''first argument empty'')
                else if CHR ''.'' \<notin> set name then
                  (if \<not> isidentifier name then
                     Inl (BeartypeValeSubscriptionException ''first argument syntactically invalid'')
                   else
                     (case attr_validator of
                        AValidator v \<Rightarrow> Inr \<lparr> is_valid = IsAttr_is_valid name v \<rparr>
                      | AnObject _ \<Rightarrow> Inl (AttributeError ''_is_valid_code_locals'')))
                else
                  Inl (BeartypeValeSubscriptionException
                         ''first argument not unqualified Python identifier'')
            | _ \<Rightarrow> Inl (BeartypeValeSubscriptionException ''first argument not string'')))"

text \<open>The subscriptions the factory accepts by its own checks: a 2-tuple whose first item
  is a non-empty unqualified Python identifier.\<close>

fun is_name_pair :: "subscript \<Rightarrow> bool" where
  "is_name_pair (Tuple [AnObject (OStr name), _]) =
     (name \<noteq> [] \<and> CHR ''.'' \<notin> set name \<and> isidentifier name)"
| "is_name_pair _ = False"

fun is_subscription_exception :: "vale_error + SubscriptedIs \<Rightarrow> bool" where
  "is_subscription_exception (Inl (BeartypeValeSubscriptionException _)) = True"
| "is_subscription_exception _ = False"

text \<open>The validator \<^verbatim>\<open>IsEqual[2]\<close>, for concrete inputs.\<close>

definition IsEqual_2 :: SubscriptedIs where
  "IsEqual_2 = \<lparr> is_valid = (\<lambda>pith. pith = OInt 2) \<rparr>"


section \<open>Union type-checking code: \<^verbatim>\<open>beartype/_check/code/pep/codepep484604.py\<close>\<close>

subsection \<open>Type hints and the helpers that read them\<close>

text \<open>
  Modelled from the spec: type hints are Python objects of the \<^verbatim>\<open>typing\<close> module, and the
  helpers \<^verbatim>\<open>is_hint_pep\<close>, \<^verbatim>\<open>get_hint_pep_sign_or_none\<close>, \<^verbatim>\<open>get_hint_pep_args\<close> and the
  set \<^verbatim>\<open>HINT_SIGNS_UNION\<close> are not among the sources. A hint is a node of the spec's schema
  tree: a class (checked by \<^verbatim>\<open>isinstance\<close>, the only hint that is not PEP-compliant), a
  union, a generic, a forward reference, a type variable with its optional bound,
  \<^verbatim>\<open>typing.Any\<close>, or a PEP-compliant hint that sanification rejects as unsupported.
\<close>

datatype hint =
    Leaf string
  | UnionHint "hint list"
  | Generic string "hint list"
  | ForwardRef string
  | TypeVariable string "hint option"
  | AnyHint
  | UnsupportedHint string

datatype HintSign =
    HintSignUnion
  | HintSignOptional
  | HintSignGeneric
  | HintSignForwardRef
  | HintSignTypeVar
  | HintSignAny
  | HintSignUnsupported

definition HINT_SIGNS_UNION :: "HintSign list" where
  "HINT_SIGNS_UNION = [HintSignOptional, HintSignUnion]"

fun is_hint_pep :: "hint \<Rightarrow> bool" where
  "is_hint_pep (Leaf _) = False"
| "is_hint_pep _ = True"

fun get_hint_pep_sign_or_none :: "hint \<Rightarrow> HintSign option" where
  "get_hint_pep_sign_or_none (Leaf _) = None"
| "get_hint_pep_sign_or_none (UnionHint _) = Some HintSignUnion"
| "get_hint_pep_sign_or_none (Generic _ _) = Some HintSignGeneric"
| "get_hint_pep_sign_or_none (ForwardRef _) = Some HintSignForwardRef"
| "get_hint_pep_sign_or_none (TypeVariable _ _) = Some HintSignTypeVar"
| "get_hint_pep_sign_or_none AnyHint = Some HintSignAny"
| "get_hint_pep_sign_or_none (UnsupportedHint _) = Some HintSignUnsupported"

fun get_hint_pep_args :: "hint \<Rightarrow> hint list" where
  "get_hint_pep_args (UnionHint hs) = hs"
| "get_hint_pep_args (Generic _ hs) = hs"
| "get_hint_pep_args _ = []"

text \<open>
  A child hint after sanification is the bare hint, or the hint with the supplementary
  metadata of \<^verbatim>\<open>HintSanifiedData\<close> (its type-variable lookup table). \<^verbatim>\<open>permute\<close> copies
  the metadata around another hint.
\<close>

type_synonym typevar_table = "(string \<times> hint) list"

datatype hint_or_sane = Bare hint | HintSanifiedData hint typevar_table

fun get_hint_or_sane_hint :: "hint_or_sane \<Rightarrow> hint" where
  "get_hint_or_sane_hint (Bare h) = h"
| "get_hint_or_sane_hint (HintSanifiedData h _) = h"

fun permute :: "hint_or_sane \<Rightarrow> hint \<Rightarrow> hint_or_sane" where
  "permute (HintSanifiedData _ tbl) h = HintSanifiedData h tbl"
| "permute (Bare _) h = Bare h"

text \<open>The exceptions of the getter: the failed assertion, with the exception prefix and
  the hint of its message, and whatever the sanification of a child raises.\<close>

datatype union_error =
    AssertionError string hint
  | SanifyException string

text \<open>
  \<^verbatim>\<open>sanify_hint_child\<close> is not among the sources: the functions below take it as the
  parameter \<open>sanify\<close>, called with the hint, the configuration, the class stack, the
  type-variable table and the exception prefix, and returning the sanified child or the
  exception it raises.
\<close>

type_synonym sanify_fun =
  "hint \<Rightarrow> BeartypeConf \<Rightarrow> string list option \<Rightarrow> typevar_table \<Rightarrow> string
     \<Rightarrow> union_error + hint_or_sane"

text \<open>
  Modelled from the spec: a sanification with the reductions the spec and the
  configuration's documentation name. Under \<^verbatim>\<open>is_pep484_tower\<close>, \<^verbatim>\<open>float\<close> widens to
  \<^verbatim>\<open>float | int\<close> and \<^verbatim>\<open>complex\<close> to \<^verbatim>\<open>complex | float | int\<close>; a type variable
  resolves through the substitution table, else to its bound, else to \<^verbatim>\<open>object\<close>; an
  unsupported hint raises. It is the concrete \<open>sanify\<close> of the examples.
\<close>

fun sanify_hint_child :: sanify_fun where
  "sanify_hint_child (Leaf t) c cls_stk tbl prefix =
     (if is_pep484_tower c = PBool True \<and> t = ''float''
        then Inr (Bare (UnionHint [Leaf ''float'', Leaf ''int'']))
      else if is_pep484_tower c = PBool True \<and> t = ''complex''
        then Inr (Bare (UnionHint [Leaf ''complex'', Leaf ''float'', Leaf ''int'']))
      else Inr (Bare (Leaf t)))"
| "sanify_hint_child (TypeVariable n bound) c cls_stk tbl prefix =
     (case map_of tbl n of
        Some h \<Rightarrow> Inr (HintSanifiedData h tbl)
      | None \<Rightarrow> (case bound of Some b \<Rightarrow> Inr (Bare b) | None \<Rightarrow> Inr (Bare (Leaf ''object''))))"
| "sanify_hint_child (UnsupportedHint d) c cls_stk tbl prefix =
     Inl (SanifyException (prefix @ d))"
| "sanify_hint_child h c cls_stk tbl prefix = Inr (Bare h)"

subsection \<open>The metadata queue, the generated code and the shared state\<close>

text \<open>
  Modelled from the spec: the code templates of
  \<^verbatim>\<open>beartype._data.code.pep.datacodepep484604\<close> and \<^verbatim>\<open>LINE_RSTRIP_INDEX_OR\<close> are not among
  the sources. The code buffer is kept as a list of tokens rather than characters: the
  opening and the closing of the union check, a line break whose indentation
  \<^verbatim>\<open>{indent_curr}\<close> is still to be formatted, a line break with its indentation, the
  membership test \<^verbatim>\<open>isinstance(pith, types)\<close>, the placeholder of an enqueued child hint,
  and \<^verbatim>\<open>or\<close>. Each child snippet ends with \<^verbatim>\<open>or\<close> (the source strips "the erroneous
  \<^verbatim>\<open>" or"\<close> suffix appended by the last child hint").
\<close>

datatype code_tok =
    TOpen
  | TClose
  | TLine
  | TIndented string
  | TIsInstance string nat
  | TChild nat
  | TOr

definition CODE_PEP484604_UNION_PREFIX :: "code_tok list" where
  "CODE_PEP484604_UNION_PREFIX = [TOpen]"

definition CODE_PEP484604_UNION_SUFFIX :: "code_tok list" where
  "CODE_PEP484604_UNION_SUFFIX = [TLine, TClose]"

definition CODE_PEP484604_UNION_CHILD_PEP_format :: "nat \<Rightarrow> code_tok list" where
  "CODE_PEP484604_UNION_CHILD_PEP_format hint_child_placeholder =
     [TLine, TChild hint_child_placeholder, TOr]"

definition CODE_PEP484604_UNION_CHILD_NONPEP_format :: "string \<Rightarrow> nat \<Rightarrow> code_tok list" where
  "CODE_PEP484604_UNION_CHILD_NONPEP_format pith_expr hint_curr_expr =
     [TLine, TIsInstance pith_expr hint_curr_expr, TOr]"

text \<open>\<^verbatim>\<open>code[:LINE_RSTRIP_INDEX_OR]\<close> drops the final \<^verbatim>\<open>" or"\<close>, and
  \<^verbatim>\<open>.format(indent_curr=...)\<close> fills the indentation of every line.\<close>

definition rstrip_or :: "code_tok list \<Rightarrow> code_tok list" where
  "rstrip_or code = butlast code"

definition format_indent_curr :: "string \<Rightarrow> code_tok list \<Rightarrow> code_tok list" where
  "format_indent_curr indent code = map (\<lambda>t. if t = TLine then TIndented indent else t) code"

record hint_meta =
  hint :: hint
  typevar_to_hint :: typevar_table

text \<open>The metadata of a child hint enqueued by \<^verbatim>\<open>enqueue_hint_or_sane_child\<close>.\<close>

record child_meta =
  child_hint_or_sane :: hint_or_sane
  child_indent_level :: nat
  child_pith_expr :: string
  child_pith_var_name_index :: nat

text \<open>
  Modelled from the spec: the class \<^verbatim>\<open>HintsMeta\<close> is not among the sources. It carries the
  attributes the union factory reads and writes, the queue of child hints still to visit
  and the types added to the scope of the wrapper function.
\<close>

record HintsMeta =
  hint_curr_meta :: hint_meta
  conf :: BeartypeConf
  cls_stack :: "string list option"
  exception_prefix :: string
  func_curr_code :: "code_tok list"
  func_wrapper_scope :: "hint list list"
  pith_curr_expr :: string
  pith_curr_assign_expr :: string
  pith_curr_var_name :: string
  pith_curr_var_name_index :: nat
  indent_level_child :: nat
  indent_curr :: string
  hints_queue :: "child_meta list"

text \<open>\<^verbatim>\<open>add_func_scope_type_or_types\<close> adds the tuple of types to the scope and returns the
  name it goes by there (its position); \<^verbatim>\<open>enqueue_hint_or_sane_child\<close> appends the child
  to the queue and returns its placeholder (its position). Neither is modelled as raising.\<close>

definition add_func_scope_type_or_types :: "HintsMeta \<Rightarrow> hint list \<Rightarrow> nat \<times> HintsMeta" where
  "add_func_scope_type_or_types hm types =
     (length (func_wrapper_scope hm),
      hm\<lparr> func_wrapper_scope := func_wrapper_scope hm @ [types] \<rparr>)"

definition enqueue_hint_or_sane_child ::
  "HintsMeta \<Rightarrow> hint_or_sane \<Rightarrow> nat \<Rightarrow> string \<Rightarrow> nat \<Rightarrow> nat \<times> HintsMeta" where
  "enqueue_hint_or_sane_child hm hint_or_sane indent_level pith_expr pith_var_name_index =
     (length (hints_queue hm),
      hm\<lparr> hints_queue := hints_queue hm @
            [\<lparr> child_hint_or_sane = hint_or_sane,
               child_indent_level = indent_level,
               child_pith_expr = pith_expr,
               child_pith_var_name_index = pith_var_name_index \<rparr>] \<rparr>)"

text \<open>
  Modelled from the spec: the object pool of
  \<^verbatim>\<open>beartype._util.cache.pool.utilcachepoolobjecttyped\<close> is not among the sources. A pool
  holds the objects that are free; acquiring takes one of them or creates a fresh one,
  releasing puts the object back.
\<close>

record pool =
  pool_free :: "nat list"
  pool_fresh :: nat

definition acquire_object_typed :: "pool \<Rightarrow> nat \<times> pool" where
  "acquire_object_typed p =
     (case pool_free p of
        [] \<Rightarrow> (pool_fresh p, p\<lparr> pool_fresh := Suc (pool_fresh p) \<rparr>)
      | x # xs \<Rightarrow> (x, p\<lparr> pool_free := xs \<rparr>))"

definition release_object_typed :: "nat \<Rightarrow> pool \<Rightarrow> pool" where
  "release_object_typed x p = p\<lparr> pool_free := x # pool_free p \<rparr>"

text \<open>The objects of a pool that are out on loan.\<close>

definition pool_borrowed :: "pool \<Rightarrow> nat list" where
  "pool_borrowed p = filter (\<lambda>x. x \<notin> set (pool_free p)) [0..<pool_fresh p]"

text \<open>
  The shared state: the pool of lists, the pool of sets, what was printed to standard
  output (the metadata whose representation each line shows), and the memo of the
  flattening getter.
\<close>

record world =
  list_pool :: pool
  set_pool :: pool
  stdout :: "hint_meta list"
  flattened_memo :: "(HintsMeta \<times> hint_or_sane list) list"

definition world_init :: world where
  "world_init =
     \<lparr> list_pool = \<lparr> pool_free = [], pool_fresh = 0 \<rparr>,
       set_pool = \<lparr> pool_free = [], pool_fresh = 0 \<rparr>,
       stdout = [],
       flattened_memo = [] \<rparr>"


subsection \<open>\<^verbatim>\<open>_get_hint_pep484604_union_args_flattened\<close>\<close>

text \<open>
  What one iteration of the search loop appends for a sanified child: the children of a
  child union (each inside the metadata of that union when it has some, bare otherwise),
  or the child itself.
\<close>

definition is_union_child :: "hint_or_sane \<Rightarrow> bool" where
  "is_union_child hint_or_sane_child =
     (get_hint_pep_sign_or_none (get_hint_or_sane_hint hint_or_sane_child)
        \<in> set (map Some HINT_SIGNS_UNION))"

definition flatten_child :: "hint_or_sane \<Rightarrow> hint_or_sane list" where
  "flatten_child hint_or_sane_child =
     (let hint_child = get_hint_or_sane_hint hint_or_sane_child in
      if is_union_child hint_or_sane_child then
        (let hint_child_childs = get_hint_pep_args hint_child in
         case hint_or_sane_child of
           HintSanifiedData _ _ \<Rightarrow> map (permute hint_or_sane_child) hint_child_childs
         | Bare _ \<Rightarrow> map Bare hint_child_childs)
      else [hint_or_sane_child])"

text \<open>The \<^verbatim>\<open>while hint_childs_index < hint_childs_len\<close> loop. An exception raised by the
  sanification of a child leaves the loop and the getter.\<close>

function flatten_loop ::
  "sanify_fun \<Rightarrow> HintsMeta \<Rightarrow> hint list \<Rightarrow> nat \<Rightarrow> hint_or_sane list
     \<Rightarrow> union_error + hint_or_sane list" where
  "flatten_loop sanify hm hint_childs hint_childs_index hint_or_sane_childs_new =
     (if hint_childs_index < length hint_childs then
        (case sanify (hint_childs ! hint_childs_index) (conf hm) (cls_stack hm)
                (typevar_to_hint (hint_curr_meta hm)) (exception_prefix hm) of
           Inl e \<Rightarrow> Inl e
         | Inr hint_or_sane_child \<Rightarrow>
             flatten_loop sanify hm hint_childs (Suc hint_childs_index)
               (hint_or_sane_childs_new @ flatten_child hint_or_sane_child))
      else Inr hint_or_sane_childs_new)"
  by pat_completeness auto
termination
  by (relation "measure (\<lambda>(sanify, hm, hint_childs, i, new). length hint_childs - i)") auto

text \<open>
  The body of the getter: the line printed first, the assertion that the union has child
  hints, the list acquired from its pool, the loop, and the list released after the loop.
\<close>

definition get_hint_pep484604_union_args_flattened_body ::
  "sanify_fun \<Rightarrow> HintsMeta \<Rightarrow> world \<Rightarrow> (union_error + hint_or_sane list) \<times> world" where
  "get_hint_pep484604_union_args_flattened_body sanify hm w =
     (let w1 = w\<lparr> stdout := stdout w @ [hint_curr_meta hm] \<rparr>;
          hint_childs = get_hint_pep_args (hint (hint_curr_meta hm))
      in if hint_childs = [] then
           (Inl (AssertionError (exception_prefix hm) (hint (hint_curr_meta hm))), w1)
         else
           (case acquire_object_typed (list_pool w1) of
              (hint_or_sane_childs_new, lp) \<Rightarrow>
                (case flatten_loop sanify hm hint_childs 0 [] of
                   Inl e \<Rightarrow> (Inl e, w1\<lparr> list_pool := lp \<rparr>)
                 | Inr hint_or_sane_childs \<Rightarrow>
                     (Inr hint_or_sane_childs,
                      w1\<lparr> list_pool := release_object_typed hint_or_sane_childs_new lp \<rparr>))))"

text \<open>
  Modelled from the spec: the decorator \<^verbatim>\<open>callable_cached\<close> is not among the sources. As
  the memoization cache of the spec, it looks the argument up, returns the stored result
  on a hit without calling the function, and on a miss calls the function once and stores
  what it returns. The getter takes one argument, the metadata queue.
\<close>

definition get_hint_pep484604_union_args_flattened ::
  "sanify_fun \<Rightarrow> HintsMeta \<Rightarrow> world \<Rightarrow> (union_error + hint_or_sane list) \<times> world" where
  "get_hint_pep484604_union_args_flattened sanify hm w =
     (case map_of (flattened_memo w) hm of
        Some hint_or_sane_childs \<Rightarrow> (Inr hint_or_sane_childs, w)
      | None \<Rightarrow>
         (case get_hint_pep484604_union_args_flattened_body sanify hm w of
            (Inl e, w') \<Rightarrow> (Inl e, w')
          | (Inr hint_or_sane_childs, w') \<Rightarrow>
              (Inr hint_or_sane_childs,
               w'\<lparr> flattened_memo := flattened_memo w' @ [(hm, hint_or_sane_childs)] \<rparr>)))"

subsection \<open>\<^verbatim>\<open>make_hint_pep484604_check_expr\<close>\<close>

text \<open>A Python set, as the list of its distinct items; \<^verbatim>\<open>set.add\<close> changes nothing when
  the item is there.\<close>

definition set_add :: "'a list \<Rightarrow> 'a \<Rightarrow> 'a list" where
  "set_add xs x = (if x \<in> set xs then xs else xs @ [x])"

text \<open>The filter loop: the classes go to \<^verbatim>\<open>hint_childs_nonpep\<close>, the PEP-compliant
  children (with their metadata) to \<^verbatim>\<open>hint_or_sane_childs_pep\<close>.\<close>

fun filter_childs ::
  "hint_or_sane list \<Rightarrow> hint list \<times> hint_or_sane list \<Rightarrow> hint list \<times> hint_or_sane list" where
  "filter_childs [] (hint_childs_nonpep, hint_or_sane_childs_pep) =
     (hint_childs_nonpep, hint_or_sane_childs_pep)"
| "filter_childs (hint_or_sane_child # rest) (hint_childs_nonpep, hint_or_sane_childs_pep) =
     (let hint_child = get_hint_or_sane_hint hint_or_sane_child in
      if is_hint_pep hint_child
        then filter_childs rest
               (hint_childs_nonpep, set_add hint_or_sane_childs_pep hint_or_sane_child)
        else filter_childs rest
               (set_add hint_childs_nonpep hint_child, hint_or_sane_childs_pep))"

text \<open>
  The loop over \<^verbatim>\<open>enumerate(hint_or_sane_childs_pep)\<close>: each child is enqueued with the
  expression of its pith, and its placeholder is appended to the code.
\<close>

fun pep_loop :: "bool \<Rightarrow> nat \<Rightarrow> hint_or_sane list \<Rightarrow> HintsMeta \<Rightarrow> HintsMeta" where
  "pep_loop has_nonpep hint_or_sane_child_pep_index [] hm = hm"
| "pep_loop has_nonpep hint_or_sane_child_pep_index (hint_or_sane_child_pep # rest) hm =
     (case enqueue_hint_or_sane_child hm hint_or_sane_child_pep (indent_level_child hm)
             (if has_nonpep \<or> hint_or_sane_child_pep_index \<noteq> 0
                then pith_curr_var_name hm
                else pith_curr_assign_expr hm)
             (pith_curr_var_name_index hm) of
        (hint_child_placeholder, hm1) \<Rightarrow>
          pep_loop has_nonpep (Suc hint_or_sane_child_pep_index) rest
            (hm1\<lparr> func_curr_code := func_curr_code hm1 @
                   CODE_PEP484604_UNION_CHILD_PEP_format hint_child_placeholder \<rparr>))"

text \<open>The code for the classes of the union, when there are some: one membership test,
  on the assignment expression when PEP-compliant children follow.\<close>

definition nonpep_code :: "hint list \<Rightarrow> bool \<Rightarrow> HintsMeta \<Rightarrow> HintsMeta" where
  "nonpep_code hint_childs_nonpep has_pep hm =
     (if hint_childs_nonpep \<noteq> [] then
        (case add_func_scope_type_or_types hm hint_childs_nonpep of
           (hint_curr_expr, hm1) \<Rightarrow>
             hm1\<lparr> func_curr_code := func_curr_code hm1 @
                   CODE_PEP484604_UNION_CHILD_NONPEP_format
                     (if has_pep then pith_curr_assign_expr hm else pith_curr_expr hm)
                     hint_curr_expr \<rparr>)
      else hm)"

text \<open>The last step: code that is not the bare prefix loses its final \<^verbatim>\<open>or\<close>, gains the
  suffix and is formatted with the current indentation.\<close>

definition munge_code :: "HintsMeta \<Rightarrow> HintsMeta" where
  "munge_code hm =
     (if func_curr_code hm \<noteq> CODE_PEP484604_UNION_PREFIX then
        hm\<lparr> func_curr_code :=
              format_indent_curr (indent_curr hm)
                (rstrip_or (func_curr_code hm) @ CODE_PEP484604_UNION_SUFFIX) \<rparr>
      else hm)"

text \<open>
  The factory. \<open>set_iter\<close> is the order in which Python iterates over the set of
  PEP-compliant children, which is not the order of insertion in general. There is no
  exception handler: an exception of the getter leaves the metadata as it was.
\<close>

definition make_hint_pep484604_check_expr ::
  "sanify_fun \<Rightarrow> (hint_or_sane list \<Rightarrow> hint_or_sane list) \<Rightarrow> HintsMeta \<Rightarrow> world
     \<Rightarrow> (union_error + unit) \<times> HintsMeta \<times> world" where
  "make_hint_pep484604_check_expr sanify set_iter hm w =
     (case get_hint_pep484604_union_args_flattened sanify hm w of
        (Inl e, w1) \<Rightarrow> (Inl e, hm, w1)
      | (Inr hint_or_sane_childs, w1) \<Rightarrow>
         (case acquire_object_typed (set_pool w1) of (set_nonpep, sp1) \<Rightarrow>
          case acquire_object_typed sp1 of (set_pep, sp2) \<Rightarrow>
          case filter_childs hint_or_sane_childs ([], []) of
            (hint_childs_nonpep, hint_or_sane_childs_pep) \<Rightarrow>
              (let hm1 = hm\<lparr> func_curr_code := CODE_PEP484604_UNION_PREFIX \<rparr>;
                   hm2 = nonpep_code hint_childs_nonpep (hint_or_sane_childs_pep \<noteq> []) hm1;
                   hm3 = pep_loop (hint_childs_nonpep \<noteq> []) 0
                           (set_iter hint_or_sane_childs_pep) hm2;
                   sp3 = release_object_typed set_pep (release_object_typed set_nonpep sp2)
               in (Inr (), munge_code hm3, w1\<lparr> set_pool := sp3 \<rparr>))))"

subsection \<open>What the generated code and the hints mean\<close>

text \<open>
  The generated check without its layout, read as an expression: an opening, alternatives
  separated by \<^verbatim>\<open>or\<close>, a closing. \<open>isinst\<close> says whether the pith expression is an instance
  of the types under a scope name, \<open>child\<close> whether the code that replaces a placeholder
  holds.
\<close>

fun is_layout :: "code_tok \<Rightarrow> bool" where
  "is_layout TLine = True"
| "is_layout (TIndented _) = True"
| "is_layout _ = False"

fun is_alternative :: "code_tok \<Rightarrow> bool" where
  "is_alternative (TIsInstance _ _) = True"
| "is_alternative (TChild _) = True"
| "is_alternative _ = False"

fun parse_alternatives :: "code_tok list \<Rightarrow> code_tok list option" where
  "parse_alternatives [a, TClose] = (if is_alternative a then Some [a] else None)"
| "parse_alternatives (a # TOr # rest) =
     (if is_alternative a then map_option (Cons a) (parse_alternatives rest) else None)"
| "parse_alternatives _ = None"

fun parse_check :: "code_tok list \<Rightarrow> code_tok list option" where
  "parse_check (TOpen # rest) = parse_alternatives rest"
| "parse_check _ = None"

fun alternative_holds :: "(string \<Rightarrow> nat \<Rightarrow> bool) \<Rightarrow> (nat \<Rightarrow> bool) \<Rightarrow> code_tok \<Rightarrow> bool" where
  "alternative_holds isinst child (TIsInstance pith_expr types) = isinst pith_expr types"
| "alternative_holds isinst child (TChild placeholder) = child placeholder"
| "alternative_holds isinst child _ = False"

definition check_holds ::
  "(string \<Rightarrow> nat \<Rightarrow> bool) \<Rightarrow> (nat \<Rightarrow> bool) \<Rightarrow> code_tok list \<Rightarrow> bool option" where
  "check_holds isinst child code =
     map_option (list_ex (alternative_holds isinst child))
       (parse_check (filter (\<lambda>t. \<not> is_layout t) code))"

text \<open>The pith expressions of the generated sub-expressions, in the order of the code:
  that of the membership test, and that handed to each enqueued child.\<close>

fun pith_exprs_of :: "child_meta list \<Rightarrow> code_tok list \<Rightarrow> string list" where
  "pith_exprs_of queue [] = []"
| "pith_exprs_of queue (TIsInstance pith_expr _ # code) = pith_expr # pith_exprs_of queue code"
| "pith_exprs_of queue (TChild k # code) =
     (if k < length queue then [child_pith_expr (queue ! k)] else []) @ pith_exprs_of queue code"
| "pith_exprs_of queue (_ # code) = pith_exprs_of queue code"

text \<open>
  The values a hint accepts: a union accepts what one of its children accepts; what every
  other hint accepts is given by \<open>sem\<close>, under the type-variable table in force. A bare
  child is read under the table of the union, a child with metadata under its own.
\<close>

fun accepts :: "(typevar_table \<Rightarrow> hint \<Rightarrow> 'v \<Rightarrow> bool) \<Rightarrow> typevar_table \<Rightarrow> hint \<Rightarrow> 'v \<Rightarrow> bool" where
  "accepts sem tbl (UnionHint hs) v = list_ex (\<lambda>h. accepts sem tbl h v) hs"
| "accepts sem tbl h v = sem tbl h v"

fun accepts_child ::
  "(typevar_table \<Rightarrow> hint \<Rightarrow> 'v \<Rightarrow> bool) \<Rightarrow> typevar_table \<Rightarrow> hint_or_sane \<Rightarrow> 'v \<Rightarrow> bool" where
  "accepts_child sem tbl (Bare h) v = accepts sem tbl h v"
| "accepts_child sem tbl (HintSanifiedData h tbl') v = accepts sem tbl' h v"

definition validate_union ::
  "(typevar_table \<Rightarrow> hint \<Rightarrow> 'v \<Rightarrow> bool) \<Rightarrow> typevar_table \<Rightarrow> hint_or_sane list \<Rightarrow> 'v \<Rightarrow> bool" where
  "validate_union sem tbl childs v = list_ex (\<lambda>c. accepts_child sem tbl c v) childs"

text \<open>The children of the union before flattening: each child sanified, in order.\<close>

fun sanify_childs :: "sanify_fun \<Rightarrow> HintsMeta \<Rightarrow> hint list \<Rightarrow> union_error + hint_or_sane list" where
  "sanify_childs sanify hm [] = Inr []"
| "sanify_childs sanify hm (h # hs) =
     (case sanify h (conf hm) (cls_stack hm) (typevar_to_hint (hint_curr_meta hm))
             (exception_prefix hm) of
        Inl e \<Rightarrow> Inl e
      | Inr c \<Rightarrow> (case sanify_childs sanify hm hs of Inl e \<Rightarrow> Inl e | Inr cs \<Rightarrow> Inr (c # cs)))"

text \<open>The memo is sound for a sanification when every stored result is what the body of
  the getter returns for its key.\<close>

definition memo_ok :: "sanify_fun \<Rightarrow> world \<Rightarrow> bool" where
  "memo_ok sanify w =
     list_all (\<lambda>(hm, r). flatten_loop sanify hm (get_hint_pep_args (hint (hint_curr_meta hm))) 0 [] = Inr r
                 \<and> get_hint_pep_args (hint (hint_curr_meta hm)) \<noteq> [])
       (flattened_memo w)"


subsection \<open>Concrete inputs\<close>

text \<open>The configuration object of \<^verbatim>\<open>BeartypeConf()\<close> and that of
  \<^verbatim>\<open>BeartypeConf(is_pep484_tower=True)\<close>.\<close>

definition conf_default :: BeartypeConf where
  "conf_default =
     \<lparr> claw_is_pep526 = PBool True,
       conf_args = [PBool True, PNone, PBool False, PBool False, PStrategy O1, PCls WarningDefault],
       conf_kwargs =
         [ (''claw_is_pep526'', PBool True), (''is_color'', PNone),
           (''is_debug'', PBool False), (''is_pep484_tower'', PBool False),
           (''strategy'', PStrategy O1), (''warning_cls_on_decorator_exception'', PNone) ],
       is_color = PNone,
       is_debug = PBool False,
       is_pep484_tower = PBool False,
       is_warning_cls_on_decorator_exception_set = False,
       warning_cls_on_decorator_exception = PNone,
       strategy = PStrategy O1 \<rparr>"

definition conf_tower :: BeartypeConf where
  "conf_tower =
     \<lparr> claw_is_pep526 = PBool True,
       conf_args = [PBool True, PNone, PBool False, PBool True, PStrategy O1, PCls WarningDefault],
       conf_kwargs =
         [ (''claw_is_pep526'', PBool True), (''is_color'', PNone),
           (''is_debug'', PBool False), (''is_pep484_tower'', PBool True),
           (''strategy'', PStrategy O1), (''warning_cls_on_decorator_exception'', PNone) ],
       is_color = PNone,
       is_debug = PBool False,
       is_pep484_tower = PBool True,
       is_warning_cls_on_decorator_exception_set = False,
       warning_cls_on_decorator_exception = PNone,
       strategy = PStrategy O1 \<rparr>"

text \<open>The metadata queue when the union is the root hint of a parameter: no code yet,
  nothing in scope, nothing enqueued.\<close>

definition hints_meta_of :: "hint \<Rightarrow> typevar_table \<Rightarrow> BeartypeConf \<Rightarrow> HintsMeta" where
  "hints_meta_of h tbl c =
     \<lparr> hint_curr_meta = \<lparr> hint = h, typevar_to_hint = tbl \<rparr>,
       conf = c,
       cls_stack = None,
       exception_prefix = ''parameter x '',
       func_curr_code = [],
       func_wrapper_scope = [],
       pith_curr_expr = ''pith_0'',
       pith_curr_assign_expr = ''pith_1 := pith_0'',
       pith_curr_var_name = ''pith_1'',
       pith_curr_var_name_index = 1,
       indent_level_child = 2,
       indent_curr = ''    '',
       hints_queue = [] \<rparr>"

text \<open>What a value is an instance of: the names of its class and of the superclasses of
  that class; every value is an instance of \<^verbatim>\<open>object\<close>. A class accepts its instances,
  and \<^verbatim>\<open>typing.Any\<close> accepts every value; the other hints are not needed by the examples.\<close>

fun sem_isinstance :: "typevar_table \<Rightarrow> hint \<Rightarrow> string list \<Rightarrow> bool" where
  "sem_isinstance tbl (Leaf t) v = (t = ''object'' \<or> t \<in> set v)"
| "sem_isinstance tbl AnyHint v = True"
| "sem_isinstance tbl _ v = False"

text \<open>The unions of the examples: scenario C of the spec, a union nested twice, a union
  without child hints, a union with a child that sanification rejects, one union under two
  type-variable tables, a union of ignorable children, and unions with classes only, with
  classes and PEP-compliant children, and with PEP-compliant children only.\<close>

definition hm_scenario_C :: HintsMeta where
  "hm_scenario_C =
     hints_meta_of (UnionHint [Leaf ''int'', UnionHint [Leaf ''str'', Leaf ''float'']]) []
       conf_default"

definition hm_nested_twice :: HintsMeta where
  "hm_nested_twice =
     hints_meta_of
       (UnionHint [Leaf ''int'',
          UnionHint [Leaf ''str'', UnionHint [Leaf ''float'', Leaf ''bytes'']]]) []
       conf_default"

definition hm_childless :: HintsMeta where
  "hm_childless = hints_meta_of (UnionHint []) [] conf_default"

definition hm_unsupported :: HintsMeta where
  "hm_unsupported =
     hints_meta_of (UnionHint [Leaf ''int'', UnsupportedHint ''Foo'']) [] conf_default"

definition hm_typevar_int :: HintsMeta where
  "hm_typevar_int =
     hints_meta_of (UnionHint [TypeVariable ''T'' None, Leaf ''str''])
       [(''T'', Leaf ''int'')] conf_default"

definition hm_typevar_union :: HintsMeta where
  "hm_typevar_union =
     hints_meta_of (UnionHint [TypeVariable ''T'' None, Leaf ''str''])
       [(''T'', UnionHint [Leaf ''int'', Leaf ''float''])] conf_default"


definition hm_int_str :: HintsMeta where
  "hm_int_str = hints_meta_of (UnionHint [Leaf ''int'', Leaf ''str'']) [] conf_default"

definition hm_mixed :: HintsMeta where
  "hm_mixed =
     hints_meta_of
       (UnionHint [Generic ''list'' [Leaf ''int''], Leaf ''int'', Generic ''set'' [Leaf ''str''],
          Leaf ''str'']) []
       conf_default"

definition hm_pep_only :: HintsMeta where
  "hm_pep_only =
     hints_meta_of (UnionHint [Generic ''list'' [Leaf ''int''], Generic ''set'' [Leaf ''str'']]) []
       conf_default"

text \<open>What the getter returns or raises, whatever the shared state: the assertion on a
  union without child hints, the outcome of the loop otherwise.\<close>

definition flattened_outcome :: "sanify_fun \<Rightarrow> HintsMeta \<Rightarrow> union_error + hint_or_sane list" where
  "flattened_outcome sanify hm =
     (if get_hint_pep_args (hint (hint_curr_meta hm)) = []
        then Inl (AssertionError (exception_prefix hm) (hint (hint_curr_meta hm)))
        else flatten_loop sanify hm (get_hint_pep_args (hint (hint_curr_meta hm))) 0 [])"


subsection \<open>Derived notions used in the proofs\<close>

text \<open>The metadata enqueued for the PEP-compliant child at position j of the iteration.\<close>

definition pep_child_meta :: "HintsMeta \<Rightarrow> bool \<Rightarrow> nat \<Rightarrow> hint_or_sane \<Rightarrow> child_meta" where
  "pep_child_meta hm has_nonpep j c =
     \<lparr> child_hint_or_sane = c,
       child_indent_level = indent_level_child hm,
       child_pith_expr =
         (if has_nonpep \<or> j \<noteq> 0 then pith_curr_var_name hm else pith_curr_assign_expr hm),
       child_pith_var_name_index = pith_curr_var_name_index hm \<rparr>"

definition child_snippets :: "nat \<Rightarrow> nat \<Rightarrow> code_tok list" where
  "child_snippets q m = concat (map (\<lambda>k. [TLine, TChild k, TOr]) [q..<q + m])"

text \<open>The alternatives of the check generated for a union, in the order of the code.\<close>

definition union_alternatives :: "HintsMeta \<Rightarrow> hint list \<Rightarrow> hint_or_sane list \<Rightarrow> nat \<Rightarrow> code_tok list" where
  "union_alternatives hm nonpep pep m =
     (if nonpep \<noteq> []
        then [TIsInstance (if pep \<noteq> [] then pith_curr_assign_expr hm else pith_curr_expr hm)
                (length (func_wrapper_scope hm))]
        else []) @
     map TChild [length (hints_queue hm)..<length (hints_queue hm) + m]"

definition snippets :: "code_tok list \<Rightarrow> code_tok list" where
  "snippets alts = concat (map (\<lambda>a. [TLine, a, TOr]) alts)"

text \<open>The metadata before the last step of the factory.\<close>

definition hm_before_munge ::
  "HintsMeta \<Rightarrow> hint list \<Rightarrow> hint_or_sane list \<Rightarrow> hint_or_sane list \<Rightarrow> HintsMeta" where
  "hm_before_munge hm nonpep pep iter =
     pep_loop (nonpep \<noteq> []) 0 iter
       (nonpep_code nonpep (pep \<noteq> []) (hm\<lparr> func_curr_code := CODE_PEP484604_UNION_PREFIX \<rparr>))"


section \<open>Properties of the configuration constructor\<close>





lemma py_eq_hashable: "py_eq x y \<Longrightarrow> hashable y"
  by (cases x; cases y) auto




lemma tuple_eq_hashable: "tuple_eq xs ys \<Longrightarrow> list_all hashable ys"
  unfolding tuple_eq_def
  by (induction xs ys rule: list_all2_induct) (auto simp: py_eq_hashable)



lemma new_init_cases:
  "new_init env p self s = (res, s') \<Longrightarrow>
     (\<exists>v. res = Inl (BeartypeConfShellVarException v) \<and> s' = s \<and> env = Some v \<and>
        map_of SHELL_VAR_CONF_IS_COLOR_VALUE_TO_OBJ v = None) \<or>
     (\<exists>obj. res = Inr self \<and>
        s' = s\<lparr> beartype_conf_args_to_conf := beartype_conf_args_to_conf s @ [(conf_args_of p, self)],
                conf_objs := conf_objs s @ [(self, obj)] \<rparr> \<and> conf_args obj = conf_args_of p)"
  unfolding new_init_def Let_def
  by (auto split: option.splits)



lemma new_locked_cases:
  assumes "new_locked env p s = (res, s')"
  shows "(res = Inl TypeError \<and> s' = s \<and> \<not> list_all hashable (conf_args_of p)) \<or>
         (\<exists>r. res = Inr r \<and> s' = s \<and> list_all hashable (conf_args_of p) \<and>
            dict_get (beartype_conf_args_to_conf s) (conf_args_of p) = Some r) \<or>
         (\<exists>n. res = Inl (BeartypeConfException n) \<and> s' = s \<and> list_all hashable (conf_args_of p) \<and>
            dict_get (beartype_conf_args_to_conf s) (conf_args_of p) = None) \<or>
         (list_all hashable (conf_args_of p) \<and>
          dict_get (beartype_conf_args_to_conf s) (conf_args_of p) = None \<and>
          new_init env p (next_ref s)
            (s\<lparr> next_ref := Suc (next_ref s),
               events := events s @ [InstanceNew (next_ref s)] \<rparr>) = (res, s'))"
  using assms unfolding new_locked_def
  by (auto split: if_splits option.splits)

lemma new_locked_error:
  assumes "new_locked env p s = (Inl e, s')"
  shows "beartype_conf_args_to_conf s' = beartype_conf_args_to_conf s"
    and "conf_objs s' = conf_objs s"
    and "dict_get (beartype_conf_args_to_conf s') (conf_args_of p) = None \<or>
         \<not> list_all hashable (conf_args_of p)"
  using new_locked_cases[OF assms]
  by (auto dest!: new_init_cases)

lemma new_locked_error_again:
  assumes "new_locked env p s = (Inl e, s')"
    and "beartype_conf_args_to_conf t = beartype_conf_args_to_conf s"
  shows "fst (new_locked env p t) = Inl e"
proof -
  from new_locked_cases[OF assms(1)] show ?thesis
  proof (elim disjE exE conjE)
    assume "\<not> list_all hashable (conf_args_of p)" "Inl e = Inl TypeError"
    then show ?thesis by (simp add: new_locked_def)
  next
    fix r :: nat assume "Inl e = Inr r" then show ?thesis by simp
  next
    fix n assume a: "Inl e = Inl (BeartypeConfException n)" "s' = s"
      "list_all hashable (conf_args_of p)"
      "dict_get (beartype_conf_args_to_conf s) (conf_args_of p) = None"
    with assms show ?thesis
      unfolding new_locked_def by (auto split: if_splits dest: new_init_cases)
  next
    assume a: "list_all hashable (conf_args_of p)"
      "dict_get (beartype_conf_args_to_conf s) (conf_args_of p) = None"
      "new_init env p (next_ref s)
         (s\<lparr> next_ref := Suc (next_ref s),
            events := events s @ [InstanceNew (next_ref s)] \<rparr>) = (Inl e, s')"
    from new_init_cases[OF a(3)] obtain v where v: "e = BeartypeConfShellVarException v"
      "env = Some v" "map_of SHELL_VAR_CONF_IS_COLOR_VALUE_TO_OBJ v = None"
      by auto
    from assms(1) a(1,2) have valid: "isinstance_bool (arg_claw_is_pep526 p)"
      "isinstance_NoneTypeOr_bool (arg_is_color p)"
      "isinstance_bool (arg_is_debug p)"
      "isinstance_bool (arg_is_pep484_tower p)"
      "arg_warning_cls_on_decorator_exception p = PNone \<or>
         is_type_subclass_Warning (arg_warning_cls_on_decorator_exception p)"
      "isinstance_BeartypeStrategy (arg_strategy p)"
      using v(1) unfolding new_locked_def by (auto split: if_splits)
    show ?thesis
      using a(1,2) assms(2) valid v
      unfolding new_locked_def new_init_def by (auto simp: Let_def)
  qed
qed


lemma dict_get_unhashable: "\<not> list_all hashable a \<Longrightarrow> dict_get d a = None"
  by (induction d) (auto dest: tuple_eq_hashable)


lemma BeartypeConf_new_locked:
  "BeartypeConf_new env p s = (res, s') \<longleftrightarrow>
     (\<exists>t. new_locked env p (s\<lparr> events := events s @ [LockAcquire] \<rparr>) = (res, t) \<and>
          s' = t\<lparr> events := events t @ [LockRelease] \<rparr>)"
  unfolding BeartypeConf_new_def by (auto split: prod.splits)















text \<open>
  Claim C9. Whenever \<^verbatim>\<open>BeartypeConf.__new__\<close> raises, the configuration cache and the
  stored configurations are what they were before the call, no configuration is stored
  under the parameter tuple, and the same call on the state the failed call left behind
  raises the same exception again.
\<close>

theorem BeartypeConf_new_error_atomic:
  assumes "BeartypeConf_new env p s = (Inl e, s')"
  shows "beartype_conf_args_to_conf s' = beartype_conf_args_to_conf s \<and>
         conf_objs s' = conf_objs s \<and>
         dict_get (beartype_conf_args_to_conf s') (conf_args_of p) = None \<and>
         fst (BeartypeConf_new env p s') = Inl e"
proof -
  from assms obtain t where t: "new_locked env p (s\<lparr> events := events s @ [LockAcquire] \<rparr>) = (Inl e, t)"
    "s' = t\<lparr> events := events t @ [LockRelease] \<rparr>"
    by (auto simp: BeartypeConf_new_locked)
  note err = new_locked_error[OF t(1)]
  have 1: "beartype_conf_args_to_conf s' = beartype_conf_args_to_conf s"
    using err(1) by (simp add: t(2))
  have 2: "conf_objs s' = conf_objs s"
    using err(2) by (simp add: t(2))
  have 3: "dict_get (beartype_conf_args_to_conf s') (conf_args_of p) = None"
    using err(3) dict_get_unhashable by (auto simp: t(2))
  have "fst (new_locked env p (s'\<lparr> events := events s' @ [LockAcquire] \<rparr>)) = Inl e"
    by (rule new_locked_error_again[OF t(1)]) (simp add: 1)
  then have 4: "fst (BeartypeConf_new env p s') = Inl e"
    unfolding BeartypeConf_new_def by (auto split: prod.splits)
  from 1 2 3 4 show ?thesis by blast
qed

theorem BeartypeConf_new_error_atomic_witness:
  "BeartypeConf_new None params_is_debug_int conf_state_init =
     (Inl (BeartypeConfException ''is_debug''),
      conf_state_init\<lparr> events := [LockAcquire, LockRelease] \<rparr>) \<and>
   beartype_conf_args_to_conf (conf_state_init\<lparr> events := [LockAcquire, LockRelease] \<rparr>) = [] \<and>
   fst (BeartypeConf_new None params_is_debug_int
          (conf_state_init\<lparr> events := [LockAcquire, LockRelease] \<rparr>)) =
     Inl (BeartypeConfException ''is_debug'') \<and>
   BeartypeConf_new (Some ''yes'') conf_params_default conf_state_init =
     (Inl (BeartypeConfShellVarException ''yes''),
      conf_state_init\<lparr> next_ref := 1, events := [LockAcquire, InstanceNew 0, LockRelease] \<rparr>) \<and>
   fst (BeartypeConf_new (Some ''yes'') conf_params_default
          (conf_state_init\<lparr> next_ref := 1, events := [LockAcquire, InstanceNew 0, LockRelease] \<rparr>)) =
     Inl (BeartypeConfShellVarException ''yes'')"
proof -
  have a: "BeartypeConf_new None params_is_debug_int conf_state_init =
     (Inl (BeartypeConfException ''is_debug''),
      conf_state_init\<lparr> events := [LockAcquire, LockRelease] \<rparr>)"
    by (simp add: BeartypeConf_new_def new_locked_def params_is_debug_int_def
        conf_params_default_def conf_state_init_def conf_args_of_def)
  have b: "BeartypeConf_new (Some ''yes'') conf_params_default conf_state_init =
     (Inl (BeartypeConfShellVarException ''yes''),
      conf_state_init\<lparr> next_ref := 1, events := [LockAcquire, InstanceNew 0, LockRelease] \<rparr>)"
    by (simp add: BeartypeConf_new_def new_locked_def new_init_def
        conf_params_default_def conf_state_init_def conf_args_of_def
        SHELL_VAR_CONF_IS_COLOR_VALUE_TO_OBJ_def)
  show ?thesis
    using BeartypeConf_new_error_atomic[OF a] BeartypeConf_new_error_atomic[OF b] a b
    by (simp add: conf_state_init_def)
qed




lemmas conf_eval =
  BeartypeConf_new_def new_locked_def new_init_def conf_params_default_def
  conf_state_init_def conf_args_of_def SHELL_VAR_CONF_IS_COLOR_VALUE_TO_OBJ_def
  tuple_eq_def params_color_True_def params_color_False_def params_is_debug_zero_def
  params_is_debug_int_def BeartypeConf_eq_def


text \<open>
  The key of the deduplication is the parameter tuple, not the settings that result from
  it: with \<^verbatim>\<open>${BEARTYPE_IS_COLOR}\<close> set to \<^verbatim>\<open>"True"\<close>, the calls
  \<^verbatim>\<open>BeartypeConf(is_color=True)\<close> and \<^verbatim>\<open>BeartypeConf(is_color=False)\<close> return two objects
  that agree in every slot but \<^verbatim>\<open>_conf_args\<close>.
\<close>

lemma BeartypeConf_same_settings_distinct_objects:
  "fst (BeartypeConf_new (Some ''True'') params_color_True conf_state_init) = Inr 0 \<and>
   fst (BeartypeConf_new (Some ''True'') params_color_False
          (snd (BeartypeConf_new (Some ''True'') params_color_True conf_state_init))) = Inr 1 \<and>
   map_of (conf_objs (snd (BeartypeConf_new (Some ''True'') params_color_False
          (snd (BeartypeConf_new (Some ''True'') params_color_True conf_state_init))))) 0 =
     Some \<lparr> claw_is_pep526 = PBool True,
            conf_args = [PBool True, PBool True, PBool False, PBool False, PStrategy O1,
                         PCls WarningDefault],
            conf_kwargs =
              [ (''claw_is_pep526'', PBool True), (''is_color'', PBool True),
                (''is_debug'', PBool False), (''is_pep484_tower'', PBool False),
                (''strategy'', PStrategy O1), (''warning_cls_on_decorator_exception'', PNone) ],
            is_color = PBool True,
            is_debug = PBool False,
            is_pep484_tower = PBool False,
            is_warning_cls_on_decorator_exception_set = False,
            warning_cls_on_decorator_exception = PNone,
            strategy = PStrategy O1 \<rparr> \<and>
   map_of (conf_objs (snd (BeartypeConf_new (Some ''True'') params_color_False
          (snd (BeartypeConf_new (Some ''True'') params_color_True conf_state_init))))) 1 =
     Some \<lparr> claw_is_pep526 = PBool True,
            conf_args = [PBool True, PBool False, PBool False, PBool False, PStrategy O1,
                         PCls WarningDefault],
            conf_kwargs =
              [ (''claw_is_pep526'', PBool True), (''is_color'', PBool True),
                (''is_debug'', PBool False), (''is_pep484_tower'', PBool False),
                (''strategy'', PStrategy O1), (''warning_cls_on_decorator_exception'', PNone) ],
            is_color = PBool True,
            is_debug = PBool False,
            is_pep484_tower = PBool False,
            is_warning_cls_on_decorator_exception_set = False,
            warning_cls_on_decorator_exception = PNone,
            strategy = PStrategy O1 \<rparr>"
  by (simp add: conf_eval)


section \<open>Properties of the attribute validator factory\<close>


lemma length_2_iff: "length xs = 2 \<longleftrightarrow> (\<exists>a b. xs = [a, b])"
  by (cases xs; cases "tl xs") auto

lemma IsAttr_exception_iff:
  "is_subscription_exception (IsAttr_class_getitem args) = (\<not> is_name_pair args)"
proof (cases args)
  case (NonTuple x)
  then show ?thesis by (simp add: IsAttr_class_getitem_def)
next
  case (Tuple items)
  show ?thesis
  proof (cases "length items = 2")
    case False
    then have "\<not> is_name_pair (Tuple items)"
      by (cases "Tuple items" rule: is_name_pair.cases) auto
    with False Tuple show ?thesis by (simp add: IsAttr_class_getitem_def)
  next
    case True
    then obtain a b where ab: "items = [a, b]" by (auto simp: length_2_iff)
    show ?thesis
      unfolding Tuple ab IsAttr_class_getitem_def
      by (cases a; cases b) (auto simp: Let_def split: obj.splits)
  qed
qed

text \<open>
  Claim C10, as amended. Subscripting \<^verbatim>\<open>IsAttr\<close> raises
  \<^verbatim>\<open>BeartypeValeSubscriptionException\<close> exactly when the subscript is not a 2-tuple whose
  first item is a non-empty unqualified Python identifier string (the second item is not
  checked); and for such a name and a validator, the factory returns a validator whose
  \<^verbatim>\<open>is_valid\<close> holds of an object if and only if \<^verbatim>\<open>getattr\<close> does not yield the sentinel
  and the attribute validator accepts the attribute's value, so that an object lacking
  the attribute yields \<^verbatim>\<open>False\<close>.
\<close>

theorem IsAttr_class_getitem_spec:
  "is_subscription_exception (IsAttr_class_getitem args) = (\<not> is_name_pair args) \<and>
   (is_name_pair (Tuple [AnObject (OStr name), AValidator v]) \<longrightarrow>
      (\<exists>r. IsAttr_class_getitem (Tuple [AnObject (OStr name), AValidator v]) = Inr r \<and>
           (\<forall>pith. is_valid r pith =
              (getattr pith name SENTINEL \<noteq> SENTINEL \<and>
               is_valid v (getattr pith name SENTINEL)))))"
  using IsAttr_exception_iff[of args]
  by (auto simp: IsAttr_class_getitem_def IsAttr_is_valid_def Let_def)

theorem IsAttr_class_getitem_spec_witness:
  "is_name_pair (Tuple [AnObject (OStr ''ndim''), AValidator IsEqual_2]) \<and>
   (\<exists>r. IsAttr_class_getitem (Tuple [AnObject (OStr ''ndim''), AValidator IsEqual_2]) = Inr r \<and>
        is_valid r (OInstance [(''ndim'', OInt 2)]) \<and>
        \<not> is_valid r (OInstance [(''ndim'', OInt 3)]) \<and>
        \<not> is_valid r (OInstance [(''shape'', OInt 2)]) \<and>
        \<not> is_valid r (OInstance [(''ndim'', SENTINEL)]) \<and>
        \<not> is_valid r (OInt 2))"
proof -
  have h: "is_name_pair (Tuple [AnObject (OStr ''ndim''), AValidator IsEqual_2])"
    by (simp add: is_id_start_def is_id_continue_def)
  from IsAttr_class_getitem_spec[of "NonTuple (AnObject ONone)" "''ndim''" IsEqual_2] h
  obtain r where r: "IsAttr_class_getitem (Tuple [AnObject (OStr ''ndim''), AValidator IsEqual_2]) = Inr r"
    "\<And>pith. is_valid r pith =
              (getattr pith ''ndim'' SENTINEL \<noteq> SENTINEL \<and>
               is_valid IsEqual_2 (getattr pith ''ndim'' SENTINEL))"
    by blast
  show ?thesis
    using h r(1) by (simp add: r(2) IsEqual_2_def)
qed

text \<open>
  Claim C10 as stated fails: \<^verbatim>\<open>IsAttr['ndim', 2]\<close>, whose second item is not a validator,
  raises \<^verbatim>\<open>AttributeError\<close> and not \<^verbatim>\<open>BeartypeValeSubscriptionException\<close>.
\<close>

theorem IsAttr_non_validator_AttributeError:
  "\<not> is_subscription_exception
       (IsAttr_class_getitem (Tuple [AnObject (OStr ''ndim''), AnObject (OInt 2)])) \<and>
   IsAttr_class_getitem (Tuple [AnObject (OStr ''ndim''), AnObject (OInt 2)]) =
     Inl (AttributeError ''_is_valid_code_locals'')"
  by (simp add: IsAttr_class_getitem_def is_id_start_def is_id_continue_def)



section \<open>Properties of the union code factory\<close>

declare flatten_loop.simps [simp del]

lemma flatten_loop_sanify_childs:
  "flatten_loop sanify hm cs i acc =
     (case sanify_childs sanify hm (drop i cs) of
        Inl e \<Rightarrow> Inl e
      | Inr sane \<Rightarrow> Inr (acc @ concat (map flatten_child sane)))"
proof (induction sanify hm cs i acc rule: flatten_loop.induct)
  case (1 sanify hm cs i acc)
  show ?case
  proof (cases "i < length cs")
    case False
    then show ?thesis by (simp add: flatten_loop.simps[of sanify hm cs i acc])
  next
    case True
    then have d: "drop i cs = cs ! i # drop (Suc i) cs"
      by (simp add: Cons_nth_drop_Suc)
    show ?thesis
    proof (cases "sanify (cs ! i) (conf hm) (cls_stack hm)
                (typevar_to_hint (hint_curr_meta hm)) (exception_prefix hm)")
      case (Inl e)
      with True d show ?thesis by (simp add: flatten_loop.simps[of sanify hm cs i acc])
    next
      case (Inr c)
      from "1.IH"[OF True Inr] True d Inr show ?thesis
        by (simp add: flatten_loop.simps[of sanify hm cs i acc] split: sum.splits)
    qed
  qed
qed

lemma is_union_child_cases:
  "is_union_child c \<longleftrightarrow> (\<exists>hs. get_hint_or_sane_hint c = UnionHint hs)"
  by (cases "get_hint_or_sane_hint c") (auto simp: is_union_child_def HINT_SIGNS_UNION_def)

lemma accepts_flatten_child:
  "list_ex (\<lambda>x. accepts_child sem tbl x v) (flatten_child c) = accepts_child sem tbl c v"
proof (cases "is_union_child c")
  case False
  then show ?thesis by (simp add: flatten_child_def)
next
  case True
  then obtain hs where hs: "get_hint_or_sane_hint c = UnionHint hs"
    by (auto simp: is_union_child_cases)
  show ?thesis
  proof (cases c)
    case (Bare h)
    with hs True show ?thesis
      by (simp add: flatten_child_def list_ex_iff)
  next
    case (HintSanifiedData h t)
    with hs True show ?thesis
      by (simp add: flatten_child_def list_ex_iff)
  qed
qed

lemma validate_union_flatten:
  "validate_union sem tbl (concat (map flatten_child sane)) v = validate_union sem tbl sane v"
  unfolding validate_union_def
  by (induction sane) (auto simp: accepts_flatten_child simp flip: list_ex_iff)

lemma sanify_childs_cong:
  assumes "conf hm2 = conf hm" "cls_stack hm2 = cls_stack hm"
    "typevar_to_hint (hint_curr_meta hm2) = typevar_to_hint (hint_curr_meta hm)"
    "exception_prefix hm2 = exception_prefix hm"
  shows "sanify_childs sanify hm2 cs = sanify_childs sanify hm cs"
  using assms by (induction cs) (auto split: sum.splits)

lemma body_fst:
  "fst (get_hint_pep484604_union_args_flattened_body sanify hm w) = flattened_outcome sanify hm"
  unfolding get_hint_pep484604_union_args_flattened_body_def flattened_outcome_def
  by (auto simp: Let_def split: prod.splits sum.splits)

lemma body_memo:
  "flattened_memo (snd (get_hint_pep484604_union_args_flattened_body sanify hm w)) = flattened_memo w"
  unfolding get_hint_pep484604_union_args_flattened_body_def
  by (auto simp: Let_def split: prod.splits sum.splits)

lemma memo_ok_lookup:
  assumes "memo_ok sanify w" "map_of (flattened_memo w) hm = Some r"
  shows "flattened_outcome sanify hm = Inr r"
proof -
  from assms(2) have "(hm, r) \<in> set (flattened_memo w)" by (rule map_of_SomeD)
  with assms(1) show ?thesis
    unfolding memo_ok_def flattened_outcome_def by (auto simp: list_all_iff)
qed

lemma getter_fst:
  assumes "memo_ok sanify w"
  shows "fst (get_hint_pep484604_union_args_flattened sanify hm w) = flattened_outcome sanify hm"
proof (cases "map_of (flattened_memo w) hm")
  case None
  then show ?thesis
    using body_fst[of sanify hm w]
    unfolding get_hint_pep484604_union_args_flattened_def
    by (auto split: prod.splits sum.splits)
next
  case (Some r)
  with memo_ok_lookup[OF assms Some] show ?thesis
    unfolding get_hint_pep484604_union_args_flattened_def by simp
qed

lemma getter_memo_ok:
  assumes "memo_ok sanify w"
  shows "memo_ok sanify (snd (get_hint_pep484604_union_args_flattened sanify hm w))"
proof (cases "map_of (flattened_memo w) hm")
  case (Some r)
  with assms show ?thesis
    unfolding get_hint_pep484604_union_args_flattened_def by simp
next
  case None
  obtain res w' where b: "get_hint_pep484604_union_args_flattened_body sanify hm w = (res, w')"
    by (cases "get_hint_pep484604_union_args_flattened_body sanify hm w")
  have m: "flattened_memo w' = flattened_memo w" using body_memo[of sanify hm w] b by simp
  have f: "res = flattened_outcome sanify hm" using body_fst[of sanify hm w] b by simp
  show ?thesis
  proof (cases res)
    case (Inl e)
    with None b m assms show ?thesis
      unfolding get_hint_pep484604_union_args_flattened_def memo_ok_def by simp
  next
    case (Inr r)
    with f have "flattened_outcome sanify hm = Inr r" by simp
    then have "flatten_loop sanify hm (get_hint_pep_args (hint (hint_curr_meta hm))) 0 [] = Inr r \<and>
       get_hint_pep_args (hint (hint_curr_meta hm)) \<noteq> []"
      unfolding flattened_outcome_def by (auto split: if_splits)
    with Inr None b m assms show ?thesis
      unfolding get_hint_pep484604_union_args_flattened_def memo_ok_def by simp
  qed
qed

lemma flattened_outcome_cong:
  assumes "hint_curr_meta hm2 = hint_curr_meta hm" "conf hm2 = conf hm"
    "cls_stack hm2 = cls_stack hm" "exception_prefix hm2 = exception_prefix hm"
  shows "flattened_outcome sanify hm2 = flattened_outcome sanify hm"
  using assms sanify_childs_cong[of hm2 hm sanify]
  unfolding flattened_outcome_def flatten_loop_sanify_childs by simp

lemma getter_result:
  assumes "memo_ok sanify w"
    and "get_hint_pep484604_union_args_flattened sanify hm w = (res, w')"
  shows "res = flattened_outcome sanify hm"
  using getter_fst[OF assms(1), of hm] assms(2) by simp

lemma flatten_child_shape:
  "if is_union_child c
     then map get_hint_or_sane_hint (flatten_child c) = get_hint_pep_args (get_hint_or_sane_hint c)
     else flatten_child c = [c]"
  by (cases c) (auto simp: flatten_child_def comp_def)

lemma flatten_child_no_union:
  assumes "is_union_child c \<Longrightarrow>
      list_all (\<lambda>h. \<not> is_union_child (Bare h)) (get_hint_pep_args (get_hint_or_sane_hint c))"
  shows "list_all (\<lambda>x. \<not> is_union_child x) (flatten_child c)"
proof (cases "is_union_child c")
  case False
  then show ?thesis by (simp add: flatten_child_def)
next
  case True
  from assms[OF True] True show ?thesis
    by (cases c) (auto simp: flatten_child_def list_all_iff is_union_child_def)
qed

text \<open>
  Claim C1, as amended. When the getter returns, its tuple is the concatenation, in the
  order of the children, of what each sanified child contributes: a child union
  contributes its own child hints, every other child itself. The flattened union accepts
  exactly the values the union of the sanified children accepts. Flattening is one level
  only: no union remains among the returned children provided that no child union has a
  union among its own children.
\<close>

theorem union_args_flattened_one_level:
  assumes "memo_ok sanify w"
    and "get_hint_pep484604_union_args_flattened sanify hm w = (Inr flat, w')"
  shows "\<exists>sane. sanify_childs sanify hm (get_hint_pep_args (hint (hint_curr_meta hm))) = Inr sane \<and>
           flat = concat (map flatten_child sane) \<and>
           list_all (\<lambda>c. if is_union_child c
                          then map get_hint_or_sane_hint (flatten_child c) =
                                 get_hint_pep_args (get_hint_or_sane_hint c)
                          else flatten_child c = [c]) sane \<and>
           (\<forall>v. validate_union sem tbl flat v = validate_union sem tbl sane v) \<and>
           (list_all (\<lambda>c. list_all (\<lambda>h. \<not> is_union_child (Bare h))
                             (get_hint_pep_args (get_hint_or_sane_hint c)))
                     (filter is_union_child sane)
              \<longrightarrow> list_all (\<lambda>c. \<not> is_union_child c) flat)"
proof -
  let ?cs = "get_hint_pep_args (hint (hint_curr_meta hm))"
  from getter_result[OF assms] have "flattened_outcome sanify hm = Inr flat" by simp
  then have "flatten_loop sanify hm ?cs 0 [] = Inr flat"
    unfolding flattened_outcome_def by (auto split: if_splits)
  then obtain sane where sane: "sanify_childs sanify hm ?cs = Inr sane"
    "flat = concat (map flatten_child sane)"
    unfolding flatten_loop_sanify_childs by (auto split: sum.splits)
  have shape: "list_all (\<lambda>c. if is_union_child c
                          then map get_hint_or_sane_hint (flatten_child c) =
                                 get_hint_pep_args (get_hint_or_sane_hint c)
                          else flatten_child c = [c]) sane"
    using flatten_child_shape by (simp add: list_all_iff)
  have val: "\<forall>v. validate_union sem tbl flat v = validate_union sem tbl sane v"
    by (simp add: sane(2) validate_union_flatten)
  have nou: "list_all (\<lambda>c. list_all (\<lambda>h. \<not> is_union_child (Bare h))
                             (get_hint_pep_args (get_hint_or_sane_hint c)))
                     (filter is_union_child sane)
              \<longrightarrow> list_all (\<lambda>c. \<not> is_union_child c) flat"
  proof
    assume h: "list_all (\<lambda>c. list_all (\<lambda>h. \<not> is_union_child (Bare h))
                             (get_hint_pep_args (get_hint_or_sane_hint c)))
                     (filter is_union_child sane)"
    have "\<And>c. c \<in> set sane \<Longrightarrow> list_all (\<lambda>x. \<not> is_union_child x) (flatten_child c)"
      using h by (intro flatten_child_no_union) (simp add: list_all_iff)
    then show "list_all (\<lambda>c. \<not> is_union_child c) flat"
      unfolding sane(2) by (auto simp: list_all_iff)
  qed
  from sane shape val nou show ?thesis by blast
qed

lemma memo_ok_init: "memo_ok sanify world_init"
  by (simp add: memo_ok_def world_init_def)

lemma getter_pair:
  assumes "memo_ok sanify w" and "flattened_outcome sanify hm = Inr flat"
  shows "get_hint_pep484604_union_args_flattened sanify hm w =
           (Inr flat, snd (get_hint_pep484604_union_args_flattened sanify hm w))"
  using getter_fst[OF assms(1), of hm] assms(2) by (simp add: prod_eq_iff)

lemmas hint_eval =
  hints_meta_of_def conf_default_def conf_tower_def flattened_outcome_def
  flatten_loop_sanify_childs flatten_child_def is_union_child_def HINT_SIGNS_UNION_def

text \<open>
  Scenario C of the spec: \<^verbatim>\<open>Union(int, Union(str, float))\<close> flattens to three children and
  accepts a \<^verbatim>\<open>float\<close>.
\<close>

theorem union_args_flattened_one_level_witness:
  "memo_ok sanify_hint_child world_init \<and>
   fst (get_hint_pep484604_union_args_flattened sanify_hint_child hm_scenario_C world_init) =
     Inr [Bare (Leaf ''int''), Bare (Leaf ''str''), Bare (Leaf ''float'')] \<and>
   sanify_childs sanify_hint_child hm_scenario_C
       (get_hint_pep_args (hint (hint_curr_meta hm_scenario_C))) =
     Inr [Bare (Leaf ''int''), Bare (UnionHint [Leaf ''str'', Leaf ''float''])] \<and>
   validate_union sem_isinstance []
     [Bare (Leaf ''int''), Bare (Leaf ''str''), Bare (Leaf ''float'')] [''float''] \<and>
   validate_union sem_isinstance []
     [Bare (Leaf ''int''), Bare (UnionHint [Leaf ''str'', Leaf ''float''])] [''float''] \<and>
   list_all (\<lambda>c. \<not> is_union_child c)
     [Bare (Leaf ''int''), Bare (Leaf ''str''), Bare (Leaf ''float'')]"
proof -
  let ?flat = "[Bare (Leaf ''int''), Bare (Leaf ''str''), Bare (Leaf ''float'')]"
  let ?sane = "[Bare (Leaf ''int''), Bare (UnionHint [Leaf ''str'', Leaf ''float''])]"
  have m: "memo_ok sanify_hint_child world_init" by (rule memo_ok_init)
  have o: "flattened_outcome sanify_hint_child hm_scenario_C = Inr ?flat"
    by (simp add: hm_scenario_C_def hint_eval)
  have s: "sanify_childs sanify_hint_child hm_scenario_C
       (get_hint_pep_args (hint (hint_curr_meta hm_scenario_C))) = Inr ?sane"
    by (simp add: hm_scenario_C_def hint_eval)
  have h: "list_all (\<lambda>c. list_all (\<lambda>h. \<not> is_union_child (Bare h))
                             (get_hint_pep_args (get_hint_or_sane_hint c)))
                     (filter is_union_child ?sane)"
    by (simp add: is_union_child_def HINT_SIGNS_UNION_def)
  from union_args_flattened_one_level[OF m getter_pair[OF m o], of sem_isinstance "[]"]
  obtain sane where sane: "sanify_childs sanify_hint_child hm_scenario_C
       (get_hint_pep_args (hint (hint_curr_meta hm_scenario_C))) = Inr sane"
    "\<forall>v. validate_union sem_isinstance [] ?flat v = validate_union sem_isinstance [] sane v"
    "list_all (\<lambda>c. list_all (\<lambda>h. \<not> is_union_child (Bare h))
                             (get_hint_pep_args (get_hint_or_sane_hint c)))
                     (filter is_union_child sane)
              \<longrightarrow> list_all (\<lambda>c. \<not> is_union_child c) ?flat"
    by blast
  from sane(1) s have e: "sane = ?sane" by simp
  have v1: "validate_union sem_isinstance [] ?sane [''float'']"
    by (simp add: validate_union_def)
  have v2: "validate_union sem_isinstance [] ?flat [''float'']"
    using sane(2) v1 unfolding e by blast
  have n: "list_all (\<lambda>c. \<not> is_union_child c) ?flat"
    using sane(3) h unfolding e by blast
  have g: "fst (get_hint_pep484604_union_args_flattened sanify_hint_child hm_scenario_C world_init)
      = Inr ?flat"
    using getter_fst[OF m, of hm_scenario_C] o by simp
  from m g s v2 v1 n show ?thesis by blast
qed

text \<open>
  Claim C1 as stated fails: of \<^verbatim>\<open>Union(int, Union(str, Union(float, bytes)))\<close> the getter
  returns \<^verbatim>\<open>int\<close>, \<^verbatim>\<open>str\<close> and the union \<^verbatim>\<open>Union(float, bytes)\<close>, a union at depth 1.
\<close>

theorem union_nested_twice_keeps_union:
  "fst (get_hint_pep484604_union_args_flattened sanify_hint_child hm_nested_twice world_init) =
     Inr [Bare (Leaf ''int''), Bare (Leaf ''str''),
          Bare (UnionHint [Leaf ''float'', Leaf ''bytes''])] \<and>
   is_union_child (Bare (UnionHint [Leaf ''float'', Leaf ''bytes''])) \<and>
   \<not> list_all (\<lambda>c. \<not> is_union_child c)
       [Bare (Leaf ''int''), Bare (Leaf ''str''),
        Bare (UnionHint [Leaf ''float'', Leaf ''bytes''])]"
proof -
  have "flattened_outcome sanify_hint_child hm_nested_twice =
     Inr [Bare (Leaf ''int''), Bare (Leaf ''str''),
          Bare (UnionHint [Leaf ''float'', Leaf ''bytes''])]"
    by (simp add: hm_nested_twice_def hint_eval)
  then show ?thesis
    using getter_fst[OF memo_ok_init, of sanify_hint_child hm_nested_twice]
    by (simp add: is_union_child_def HINT_SIGNS_UNION_def)
qed

text \<open>
  Claim C2, as amended. What the getter returns or raises is a function of the union
  hint, the type-variable table, the configuration, the class stack and the exception
  prefix of the metadata it is passed, whatever the state of the pools, the output and a
  sound memo: two invocations that agree on these return the same, and so does a second
  invocation made after the first.
\<close>

theorem union_args_flattened_deterministic:
  assumes "memo_ok sanify w" and "memo_ok sanify w2"
    and "hint_curr_meta hm2 = hint_curr_meta hm" and "conf hm2 = conf hm"
    and "cls_stack hm2 = cls_stack hm" and "exception_prefix hm2 = exception_prefix hm"
  shows "fst (get_hint_pep484604_union_args_flattened sanify hm2 w2) =
           fst (get_hint_pep484604_union_args_flattened sanify hm w) \<and>
         fst (get_hint_pep484604_union_args_flattened sanify hm2
                (snd (get_hint_pep484604_union_args_flattened sanify hm w))) =
           fst (get_hint_pep484604_union_args_flattened sanify hm w)"
  using getter_fst[OF assms(1), of hm] getter_fst[OF assms(2), of hm2]
    getter_fst[OF getter_memo_ok[OF assms(1), of hm], of hm2]
    flattened_outcome_cong[OF assms(3-6), of sanify]
  by simp

text \<open>
  The same union under metadata that differs in the index of the pith variable only.
\<close>

theorem union_args_flattened_deterministic_witness:
  "memo_ok sanify_hint_child world_init \<and>
   hint_curr_meta (hm_scenario_C\<lparr> pith_curr_var_name_index := 7 \<rparr>) = hint_curr_meta hm_scenario_C \<and>
   fst (get_hint_pep484604_union_args_flattened sanify_hint_child hm_scenario_C world_init) =
     Inr [Bare (Leaf ''int''), Bare (Leaf ''str''), Bare (Leaf ''float'')] \<and>
   fst (get_hint_pep484604_union_args_flattened sanify_hint_child
          (hm_scenario_C\<lparr> pith_curr_var_name_index := 7 \<rparr>)
          (snd (get_hint_pep484604_union_args_flattened sanify_hint_child hm_scenario_C world_init))) =
     Inr [Bare (Leaf ''int''), Bare (Leaf ''str''), Bare (Leaf ''float'')]"
proof -
  have m: "memo_ok sanify_hint_child world_init" by (rule memo_ok_init)
  have o: "flattened_outcome sanify_hint_child hm_scenario_C =
      Inr [Bare (Leaf ''int''), Bare (Leaf ''str''), Bare (Leaf ''float'')]"
    by (simp add: hm_scenario_C_def hint_eval)
  have g: "fst (get_hint_pep484604_union_args_flattened sanify_hint_child hm_scenario_C world_init) =
     Inr [Bare (Leaf ''int''), Bare (Leaf ''str''), Bare (Leaf ''float'')]"
    using getter_fst[OF m, of hm_scenario_C] o by simp
  from union_args_flattened_deterministic[OF m m,
      of "hm_scenario_C\<lparr> pith_curr_var_name_index := 7 \<rparr>" hm_scenario_C]
  show ?thesis using m g by simp
qed

text \<open>
  Claim C2 as stated fails: the result is not a function of the hint and the configuration
  alone. The union \<^verbatim>\<open>Union(T, str)\<close> under one configuration flattens to two children when
  the table maps \<^verbatim>\<open>T\<close> to \<^verbatim>\<open>int\<close> and to three when it maps \<^verbatim>\<open>T\<close> to
  \<^verbatim>\<open>Union(int, float)\<close>.
\<close>

theorem union_args_flattened_depends_on_typevar_table:
  "hint (hint_curr_meta hm_typevar_union) = hint (hint_curr_meta hm_typevar_int) \<and>
   conf hm_typevar_union = conf hm_typevar_int \<and>
   fst (get_hint_pep484604_union_args_flattened sanify_hint_child hm_typevar_int world_init) =
     Inr [HintSanifiedData (Leaf ''int'') [(''T'', Leaf ''int'')], Bare (Leaf ''str'')] \<and>
   fst (get_hint_pep484604_union_args_flattened sanify_hint_child hm_typevar_union
          (snd (get_hint_pep484604_union_args_flattened sanify_hint_child hm_typevar_int world_init))) =
     Inr [HintSanifiedData (Leaf ''int'') [(''T'', UnionHint [Leaf ''int'', Leaf ''float''])],
          HintSanifiedData (Leaf ''float'') [(''T'', UnionHint [Leaf ''int'', Leaf ''float''])],
          Bare (Leaf ''str'')]"
proof -
  have m: "memo_ok sanify_hint_child world_init" by (rule memo_ok_init)
  have a: "flattened_outcome sanify_hint_child hm_typevar_int =
     Inr [HintSanifiedData (Leaf ''int'') [(''T'', Leaf ''int'')], Bare (Leaf ''str'')]"
    by (simp add: hm_typevar_int_def hint_eval)
  have b: "flattened_outcome sanify_hint_child hm_typevar_union =
     Inr [HintSanifiedData (Leaf ''int'') [(''T'', UnionHint [Leaf ''int'', Leaf ''float''])],
          HintSanifiedData (Leaf ''float'') [(''T'', UnionHint [Leaf ''int'', Leaf ''float''])],
          Bare (Leaf ''str'')]"
    by (simp add: hm_typevar_union_def hint_eval)
  show ?thesis
    using getter_fst[OF m, of hm_typevar_int]
      getter_fst[OF getter_memo_ok[OF m, of hm_typevar_int], of hm_typevar_union] a b
    by (simp add: hm_typevar_int_def hm_typevar_union_def hints_meta_of_def)
qed

lemma memo_ok_childless:
  assumes "memo_ok sanify w" and "get_hint_pep_args (hint (hint_curr_meta hm)) = []"
  shows "map_of (flattened_memo w) hm = None"
proof (cases "map_of (flattened_memo w) hm")
  case (Some r)
  from memo_ok_lookup[OF assms(1) Some] assms(2) show ?thesis
    by (simp add: flattened_outcome_def)
qed simp

text \<open>
  Claim C8. For a union hint without child hints the factory raises the
  \<^verbatim>\<open>AssertionError\<close> of the getter: the metadata and its code buffer are untouched, no
  pool object is acquired, and the only effect is the line the getter prints. Nothing
  catches the exception, and invoking the factory again fails again.
\<close>

theorem childless_union_asserts:
  assumes "memo_ok sanify w" and "get_hint_pep_args (hint (hint_curr_meta hm)) = []"
  shows "make_hint_pep484604_check_expr sanify set_iter hm w =
           (Inl (AssertionError (exception_prefix hm) (hint (hint_curr_meta hm))),
            hm, w\<lparr> stdout := stdout w @ [hint_curr_meta hm] \<rparr>) \<and>
         fst (make_hint_pep484604_check_expr sanify set_iter hm
                (w\<lparr> stdout := stdout w @ [hint_curr_meta hm] \<rparr>)) =
           Inl (AssertionError (exception_prefix hm) (hint (hint_curr_meta hm)))"
proof -
  have m2: "memo_ok sanify (w\<lparr> stdout := stdout w @ [hint_curr_meta hm] \<rparr>)"
    using assms(1) by (simp add: memo_ok_def)
  have "\<And>w. memo_ok sanify w \<Longrightarrow> make_hint_pep484604_check_expr sanify set_iter hm w =
           (Inl (AssertionError (exception_prefix hm) (hint (hint_curr_meta hm))),
            hm, w\<lparr> stdout := stdout w @ [hint_curr_meta hm] \<rparr>)"
    using memo_ok_childless[OF _ assms(2)] assms(2)
    unfolding make_hint_pep484604_check_expr_def get_hint_pep484604_union_args_flattened_def
      get_hint_pep484604_union_args_flattened_body_def
    by (simp add: Let_def)
  from this[OF assms(1)] this[OF m2] show ?thesis by simp
qed

text \<open>
  The union without child hints, on the initial state.
\<close>

theorem childless_union_asserts_witness:
  "memo_ok sanify_hint_child world_init \<and>
   get_hint_pep_args (hint (hint_curr_meta hm_childless)) = [] \<and>
   make_hint_pep484604_check_expr sanify_hint_child (\<lambda>xs. xs) hm_childless world_init =
     (Inl (AssertionError ''parameter x '' (UnionHint [])),
      hm_childless, world_init\<lparr> stdout := [hint_curr_meta hm_childless] \<rparr>)"
proof -
  have m: "memo_ok sanify_hint_child world_init" by (rule memo_ok_init)
  have c: "get_hint_pep_args (hint (hint_curr_meta hm_childless)) = []"
    by (simp add: hm_childless_def hints_meta_of_def)
  have p: "exception_prefix hm_childless = ''parameter x ''"
    "hint (hint_curr_meta hm_childless) = UnionHint []"
    by (simp_all add: hm_childless_def hints_meta_of_def)
  have s: "stdout world_init = []" by (simp add: world_init_def)
  from childless_union_asserts[OF m c, of "\<lambda>xs. xs"] m c show ?thesis
    by (simp add: p s)
qed

lemma borrowed_acquire_release:
  assumes "acquire_object_typed p = (x, p1)"
  shows "pool_borrowed (release_object_typed x p1) = pool_borrowed p"
  using assms
  unfolding acquire_object_typed_def release_object_typed_def pool_borrowed_def
  by (auto split: list.splits intro: filter_cong)

lemma filter_fresh:
  "filter (\<lambda>x. x \<noteq> n \<and> P x) [0..<n] = filter P [0..<n]"
  by (rule filter_cong) auto

lemma borrowed_acquire2_release2:
  assumes "acquire_object_typed p = (a, p1)" and "acquire_object_typed p1 = (b, p2)"
  shows "pool_borrowed (release_object_typed b (release_object_typed a p2)) = pool_borrowed p"
proof (cases "pool_free p")
  case Nil
  with assms have "a = pool_fresh p" "b = Suc (pool_fresh p)"
    "p2 = p\<lparr> pool_fresh := Suc (Suc (pool_fresh p)) \<rparr>"
    unfolding acquire_object_typed_def by auto
  with Nil show ?thesis
    unfolding release_object_typed_def pool_borrowed_def by simp
next
  case (Cons x xs)
  show ?thesis
  proof (cases xs)
    case Nil
    with Cons assms have e: "a = x" "b = pool_fresh p"
      "p2 = p\<lparr> pool_free := [], pool_fresh := Suc (pool_fresh p) \<rparr>"
      unfolding acquire_object_typed_def by auto
    show ?thesis
      unfolding release_object_typed_def pool_borrowed_def e
      using Cons Nil filter_fresh[of "pool_fresh p" "\<lambda>y. y \<noteq> x"]
      by simp
  next
    case (Cons y ys)
    with \<open>pool_free p = x # xs\<close> assms have e: "a = x" "b = y" "p2 = p\<lparr> pool_free := ys \<rparr>"
      unfolding acquire_object_typed_def by auto
    show ?thesis
      unfolding release_object_typed_def pool_borrowed_def e
      using Cons \<open>pool_free p = x # xs\<close>
      by (auto intro: filter_cong)
  qed
qed

lemma body_pools:
  assumes "get_hint_pep484604_union_args_flattened_body sanify hm w = (Inr r, w')"
  shows "pool_borrowed (list_pool w') = pool_borrowed (list_pool w) \<and> set_pool w' = set_pool w"
  using assms borrowed_acquire_release[of "list_pool w"]
  unfolding get_hint_pep484604_union_args_flattened_body_def
  by (auto simp: Let_def split: if_splits prod.splits sum.splits)

lemma getter_pools:
  assumes "get_hint_pep484604_union_args_flattened sanify hm w = (Inr r, w')"
  shows "pool_borrowed (list_pool w') = pool_borrowed (list_pool w) \<and> set_pool w' = set_pool w"
proof (cases "map_of (flattened_memo w) hm")
  case (Some r')
  with assms show ?thesis
    unfolding get_hint_pep484604_union_args_flattened_def by auto
next
  case None
  obtain res w1 where b: "get_hint_pep484604_union_args_flattened_body sanify hm w = (res, w1)"
    by (cases "get_hint_pep484604_union_args_flattened_body sanify hm w")
  with None assms have "res = Inr r" "w' = w1\<lparr> flattened_memo := flattened_memo w1 @ [(hm, r)] \<rparr>"
    unfolding get_hint_pep484604_union_args_flattened_def
    by (auto split: sum.splits)
  with body_pools[of sanify hm w r w1] b show ?thesis by simp
qed

text \<open>
  Claim C3, as amended. Whenever the factory returns without an exception, the pooled
  list of the getter and the two pooled sets of the factory are back in their pools:
  each pool has the same objects out on loan as before the invocation.
\<close>

theorem pools_released_on_return:
  assumes "make_hint_pep484604_check_expr sanify set_iter hm w = (Inr u, hm', w')"
  shows "pool_borrowed (list_pool w') = pool_borrowed (list_pool w) \<and>
         pool_borrowed (set_pool w') = pool_borrowed (set_pool w)"
proof -
  obtain res w1 where g: "get_hint_pep484604_union_args_flattened sanify hm w = (res, w1)"
    by (cases "get_hint_pep484604_union_args_flattened sanify hm w")
  with assms obtain flat where r: "res = Inr flat"
    unfolding make_hint_pep484604_check_expr_def by (cases res) auto
  obtain a sp1 where a: "acquire_object_typed (set_pool w1) = (a, sp1)"
    by (cases "acquire_object_typed (set_pool w1)")
  obtain b sp2 where b: "acquire_object_typed sp1 = (b, sp2)"
    by (cases "acquire_object_typed sp1")
  from assms g r a b have w': "w' = w1\<lparr> set_pool :=
      release_object_typed b (release_object_typed a sp2) \<rparr>"
    unfolding make_hint_pep484604_check_expr_def
    by (auto simp: Let_def split: prod.splits)
  from getter_pools[OF g[unfolded r]] borrowed_acquire2_release2[OF a b] show ?thesis
    by (simp add: w')
qed

lemma pep_loop_fixed:
  "indent_level_child (pep_loop b i cs hm) = indent_level_child hm \<and>
   pith_curr_var_name (pep_loop b i cs hm) = pith_curr_var_name hm \<and>
   pith_curr_assign_expr (pep_loop b i cs hm) = pith_curr_assign_expr hm \<and>
   pith_curr_expr (pep_loop b i cs hm) = pith_curr_expr hm \<and>
   pith_curr_var_name_index (pep_loop b i cs hm) = pith_curr_var_name_index hm \<and>
   indent_curr (pep_loop b i cs hm) = indent_curr hm \<and>
   func_wrapper_scope (pep_loop b i cs hm) = func_wrapper_scope hm"
  by (induction cs arbitrary: i hm) (simp_all add: enqueue_hint_or_sane_child_def)

lemma pep_child_meta_upd:
  "pep_child_meta (hm\<lparr> hints_queue := q, func_curr_code := c \<rparr>) = pep_child_meta hm"
  by (simp add: pep_child_meta_def fun_eq_iff)

lemma pep_loop_queue:
  "hints_queue (pep_loop b i cs hm) =
     hints_queue hm @ map (\<lambda>(j, c). pep_child_meta hm b j c) (zip [i..<i + length cs] cs)"
proof (induction cs arbitrary: i hm)
  case Nil
  then show ?case by simp
next
  case (Cons c cs)
  have u: "[i..<i + length (c # cs)] = i # [Suc i..<Suc i + length cs]"
    by (subst upt_rec) simp
  show ?case
    unfolding u
    apply (simp add: Cons.IH enqueue_hint_or_sane_child_def pep_child_meta_upd)
    apply (simp add: pep_child_meta_def)
    done
qed

lemma child_snippets_Suc:
  "child_snippets q (Suc m) = [TLine, TChild q, TOr] @ child_snippets (Suc q) m"
  unfolding child_snippets_def by (subst upt_rec) simp

lemma pep_loop_code:
  "func_curr_code (pep_loop b i cs hm) =
     func_curr_code hm @ child_snippets (length (hints_queue hm)) (length cs)"
proof (induction cs arbitrary: i hm)
  case Nil
  then show ?case by (simp add: child_snippets_def)
next
  case (Cons c cs)
  show ?case
    by (simp add: Cons.IH enqueue_hint_or_sane_child_def child_snippets_Suc
        CODE_PEP484604_UNION_CHILD_PEP_format_def)
qed


lemma set_add_distinct: "distinct xs \<Longrightarrow> distinct (set_add xs x)"
  by (auto simp: set_add_def)


lemma filter_childs_distinct:
  "filter_childs xs (n0, p0) = (n, p) \<Longrightarrow> distinct n0 \<Longrightarrow> distinct p0 \<Longrightarrow>
     distinct n \<and> distinct p"
proof (induction xs arbitrary: n0 p0)
  case Nil
  then show ?case by auto
next
  case (Cons x xs)
  then show ?case
    by (cases "is_hint_pep (get_hint_or_sane_hint x)")
      (auto simp: Let_def dest: set_add_distinct)
qed

lemma filter_childs_sets:
  "filter_childs xs (n0, p0) = (n, p) \<Longrightarrow>
     set n = set n0 \<union> {get_hint_or_sane_hint x | x. x \<in> set xs \<and> \<not> is_hint_pep (get_hint_or_sane_hint x)} \<and>
     set p = set p0 \<union> {x \<in> set xs. is_hint_pep (get_hint_or_sane_hint x)}"
proof (induction xs arbitrary: n0 p0)
  case Nil
  then show ?case by auto
next
  case (Cons x xs)
  show ?case
  proof (cases "is_hint_pep (get_hint_or_sane_hint x)")
    case True
    with Cons.prems have "filter_childs xs (n0, set_add p0 x) = (n, p)" by (simp add: Let_def)
    from Cons.IH[OF this] True show ?thesis by (auto simp: set_add_def split: if_splits)
  next
    case False
    with Cons.prems have "filter_childs xs (set_add n0 (get_hint_or_sane_hint x), p0) = (n, p)"
      by (simp add: Let_def)
    from Cons.IH[OF this] False show ?thesis by (auto simp: set_add_def split: if_splits)
  qed
qed

lemma child_snippets_snippets: "child_snippets q m = snippets (map TChild [q..<q + m])"
  by (simp add: child_snippets_def snippets_def map_concat comp_def)

lemma snippets_append: "snippets (xs @ ys) = snippets xs @ snippets ys"
  by (simp add: snippets_def)

lemma make_success:
  assumes "get_hint_pep484604_union_args_flattened sanify hm w = (Inr flat, w1)"
    and "filter_childs flat ([], []) = (nonpep, pep)"
  shows "\<exists>w'. make_hint_pep484604_check_expr sanify set_iter hm w =
           (Inr (),
            munge_code (pep_loop (nonpep \<noteq> []) 0 (set_iter pep)
              (nonpep_code nonpep (pep \<noteq> []) (hm\<lparr> func_curr_code := CODE_PEP484604_UNION_PREFIX \<rparr>))),
            w')"
  using assms
  unfolding make_hint_pep484604_check_expr_def
  by (simp add: Let_def split: prod.splits)

lemma nonpep_code_fields:
  "hints_queue (nonpep_code nonpep b hm) = hints_queue hm \<and>
   indent_level_child (nonpep_code nonpep b hm) = indent_level_child hm \<and>
   pith_curr_var_name (nonpep_code nonpep b hm) = pith_curr_var_name hm \<and>
   pith_curr_assign_expr (nonpep_code nonpep b hm) = pith_curr_assign_expr hm \<and>
   pith_curr_expr (nonpep_code nonpep b hm) = pith_curr_expr hm \<and>
   pith_curr_var_name_index (nonpep_code nonpep b hm) = pith_curr_var_name_index hm \<and>
   indent_curr (nonpep_code nonpep b hm) = indent_curr hm \<and>
   func_wrapper_scope (nonpep_code nonpep b hm) =
     func_wrapper_scope hm @ (if nonpep \<noteq> [] then [nonpep] else []) \<and>
   func_curr_code (nonpep_code nonpep b hm) =
     func_curr_code hm @
     (if nonpep \<noteq> []
        then [TLine, TIsInstance (if b then pith_curr_assign_expr hm else pith_curr_expr hm)
                       (length (func_wrapper_scope hm)), TOr]
        else [])"
  by (simp add: nonpep_code_def add_func_scope_type_or_types_def
      CODE_PEP484604_UNION_CHILD_NONPEP_format_def)

lemma pep_child_meta_cong:
  assumes "indent_level_child hm2 = indent_level_child hm"
    "pith_curr_var_name hm2 = pith_curr_var_name hm"
    "pith_curr_assign_expr hm2 = pith_curr_assign_expr hm"
    "pith_curr_var_name_index hm2 = pith_curr_var_name_index hm"
  shows "pep_child_meta hm2 = pep_child_meta hm"
  using assms by (simp add: pep_child_meta_def fun_eq_iff)

lemma hm_before_munge_code:
  "func_curr_code (hm_before_munge hm nonpep pep iter) =
     TOpen # snippets (union_alternatives hm nonpep pep (length iter))"
  unfolding hm_before_munge_def
  by (simp add: pep_loop_code nonpep_code_fields CODE_PEP484604_UNION_PREFIX_def
      union_alternatives_def snippets_append child_snippets_snippets)
    (simp add: snippets_def)

lemma hm_before_munge_queue:
  "hints_queue (hm_before_munge hm nonpep pep iter) =
     hints_queue hm @
     map (\<lambda>(j, c). pep_child_meta hm (nonpep \<noteq> []) j c) (zip [0..<length iter] iter)"
proof -
  let ?hm2 = "nonpep_code nonpep (pep \<noteq> []) (hm\<lparr> func_curr_code := CODE_PEP484604_UNION_PREFIX \<rparr>)"
  have "pep_child_meta ?hm2 = pep_child_meta hm"
    by (rule pep_child_meta_cong) (simp_all add: nonpep_code_fields)
  then show ?thesis
    unfolding hm_before_munge_def
    by (simp add: pep_loop_queue nonpep_code_fields)
qed

lemma hm_before_munge_scope:
  "func_wrapper_scope (hm_before_munge hm nonpep pep iter) =
     func_wrapper_scope hm @ (if nonpep \<noteq> [] then [nonpep] else [])"
  unfolding hm_before_munge_def
  by (simp add: pep_loop_fixed nonpep_code_fields)

lemma hm_before_munge_indent:
  "indent_curr (hm_before_munge hm nonpep pep iter) = indent_curr hm"
  unfolding hm_before_munge_def
  by (simp add: pep_loop_fixed nonpep_code_fields)

lemma munge_code_fields:
  "hints_queue (munge_code hm) = hints_queue hm \<and>
   func_wrapper_scope (munge_code hm) = func_wrapper_scope hm"
  by (simp add: munge_code_def)

lemma snippets_nonempty: "alts \<noteq> [] \<Longrightarrow> snippets alts \<noteq> []"
  by (cases alts) (simp_all add: snippets_def)

lemma munge_code_code:
  "func_curr_code hm = TOpen # snippets alts \<Longrightarrow>
   func_curr_code (munge_code hm) =
     (if alts = [] then [TOpen]
      else format_indent_curr (indent_curr hm)
             (TOpen # butlast (snippets alts) @ [TLine, TClose]))"
  by (auto simp: munge_code_def CODE_PEP484604_UNION_PREFIX_def CODE_PEP484604_UNION_SUFFIX_def
      rstrip_or_def snippets_nonempty) (simp add: snippets_def)

lemma parse_munged:
  assumes "alts \<noteq> []" and "list_all is_alternative alts"
  shows "parse_alternatives
           (filter (\<lambda>t. \<not> is_layout t)
              (format_indent_curr ind (butlast (snippets alts) @ [TLine, TClose]))) = Some alts"
  using assms
proof (induction alts rule: list_nonempty_induct)
  case (single a)
  then show ?case
    by (cases a) (simp_all add: snippets_def format_indent_curr_def)
next
  case (cons a alts)
  have ne: "snippets alts \<noteq> []" using cons.hyps by (rule snippets_nonempty)
  have s: "snippets (a # alts) = [TLine, a, TOr] @ snippets alts"
    by (simp add: snippets_def)
  have b: "butlast (snippets (a # alts)) = [TLine, a, TOr] @ butlast (snippets alts)"
    unfolding s using ne by (simp add: butlast_append)
  from cons.prems have a: "is_alternative a" and r: "list_all is_alternative alts" by simp_all
  from cons.IH[OF r] a show ?case
    unfolding b
    by (cases a) (simp_all add: format_indent_curr_def)
qed

lemma union_alternatives_ok:
  "list_all is_alternative (union_alternatives hm nonpep pep m)"
  by (auto simp: union_alternatives_def list_all_iff)

lemma union_alternatives_empty:
  "(union_alternatives hm nonpep pep m = []) = (nonpep = [] \<and> m = 0)"
  by (auto simp: union_alternatives_def)

lemma filter_format_munged:
  "filter (\<lambda>t. \<not> is_layout t) (format_indent_curr ind (TOpen # code)) =
     TOpen # filter (\<lambda>t. \<not> is_layout t) (format_indent_curr ind code)"
  by (simp add: format_indent_curr_def)

lemma make_code:
  assumes "get_hint_pep484604_union_args_flattened sanify hm w = (Inr flat, w1)"
    and "filter_childs flat ([], []) = (nonpep, pep)"
  shows "\<exists>hm' w'. make_hint_pep484604_check_expr sanify set_iter hm w = (Inr (), hm', w') \<and>
           hints_queue hm' = hints_queue hm @
             map (\<lambda>(j, c). pep_child_meta hm (nonpep \<noteq> []) j c)
               (zip [0..<length (set_iter pep)] (set_iter pep)) \<and>
           func_wrapper_scope hm' =
             func_wrapper_scope hm @ (if nonpep \<noteq> [] then [nonpep] else []) \<and>
           func_curr_code hm' =
             (if union_alternatives hm nonpep pep (length (set_iter pep)) = [] then [TOpen]
              else format_indent_curr (indent_curr hm)
                     (TOpen # butlast (snippets
                        (union_alternatives hm nonpep pep (length (set_iter pep)))) @
                      [TLine, TClose]))"
proof -
  from make_success[OF assms, of set_iter]
  obtain w' where m: "make_hint_pep484604_check_expr sanify set_iter hm w =
      (Inr (), munge_code (hm_before_munge hm nonpep pep (set_iter pep)), w')"
    unfolding hm_before_munge_def by blast
  show ?thesis
    using m munge_code_code[OF hm_before_munge_code, of hm nonpep pep "set_iter pep"]
    by (simp add: munge_code_fields hm_before_munge_queue hm_before_munge_scope
        hm_before_munge_indent)
qed

lemma set_iter_length:
  assumes "filter_childs flat ([], []) = (nonpep, pep)"
    and "distinct (set_iter pep) \<and> set (set_iter pep) = set pep"
  shows "length (set_iter pep) = length pep"
proof -
  from filter_childs_distinct[OF assms(1)] have "distinct pep" by simp
  with assms(2) show ?thesis by (metis distinct_card)
qed

lemma pep_child_metas_hints:
  "map child_hint_or_sane
     (map (\<lambda>(j, c). pep_child_meta hm b j c) (zip [0..<length cs] cs)) = cs"
proof -
  have "(child_hint_or_sane \<circ> (\<lambda>(j, c). pep_child_meta hm b j c)) = snd"
    by (auto simp: fun_eq_iff pep_child_meta_def)
  then show ?thesis by simp
qed

text \<open>
  Claim C5. For a union with at least one class among its flattened children the factory
  returns, and the code it leaves in the buffer reads, layout aside: an opening, one
  membership test of the pith against the classes among the flattened children (all of
  them, added to the scope as one tuple), then the placeholder of each PEP-compliant
  child, one per child and in the order of iteration, all separated by \<^verbatim>\<open>or\<close>, and a
  closing. The check holds if the
  membership test holds or the code of one of the children holds, and fails only if all
  of them fail.
\<close>

theorem union_check_or_joined:
  assumes "get_hint_pep484604_union_args_flattened sanify hm w = (Inr flat, w1)"
    and "filter_childs flat ([], []) = (nonpep, pep)"
    and "nonpep \<noteq> []"
    and "distinct (set_iter pep) \<and> set (set_iter pep) = set pep"
  shows "\<exists>hm' w'. make_hint_pep484604_check_expr sanify set_iter hm w = (Inr (), hm', w') \<and>
           parse_check (filter (\<lambda>t. \<not> is_layout t) (func_curr_code hm')) =
             Some (TIsInstance (if pep \<noteq> [] then pith_curr_assign_expr hm else pith_curr_expr hm)
                     (length (func_wrapper_scope hm)) #
                   map TChild [length (hints_queue hm)..<length (hints_queue hm) + length pep]) \<and>
           func_wrapper_scope hm' = func_wrapper_scope hm @ [nonpep] \<and>
           set nonpep =
             get_hint_or_sane_hint ` {c \<in> set flat. \<not> is_hint_pep (get_hint_or_sane_hint c)} \<and>
           map child_hint_or_sane (drop (length (hints_queue hm)) (hints_queue hm')) = set_iter pep \<and>
           set pep = {c \<in> set flat. is_hint_pep (get_hint_or_sane_hint c)} \<and>
           (\<forall>isinst child.
              check_holds isinst child (func_curr_code hm') =
                Some (isinst (if pep \<noteq> [] then pith_curr_assign_expr hm else pith_curr_expr hm)
                        (length (func_wrapper_scope hm)) \<or>
                      list_ex child [length (hints_queue hm)..<length (hints_queue hm) + length pep]))"
proof -
  let ?m = "length (set_iter pep)"
  let ?alts = "union_alternatives hm nonpep pep ?m"
  have len: "?m = length pep" by (rule set_iter_length[where set_iter = set_iter, OF assms(2,4)])
  from make_code[OF assms(1,2), of set_iter] assms(3)
  obtain hm' w' where r: "make_hint_pep484604_check_expr sanify set_iter hm w = (Inr (), hm', w')"
    "hints_queue hm' = hints_queue hm @
             map (\<lambda>(j, c). pep_child_meta hm (nonpep \<noteq> []) j c) (zip [0..<?m] (set_iter pep))"
    "func_wrapper_scope hm' = func_wrapper_scope hm @ [nonpep]"
    "func_curr_code hm' = format_indent_curr (indent_curr hm)
                     (TOpen # butlast (snippets ?alts) @ [TLine, TClose])"
    by (auto simp: union_alternatives_empty)
  have ne: "?alts \<noteq> []" using assms(3) by (simp add: union_alternatives_empty)
  have p: "parse_check (filter (\<lambda>t. \<not> is_layout t) (func_curr_code hm')) = Some ?alts"
    unfolding r(4) filter_format_munged
    using parse_munged[OF ne union_alternatives_ok] by simp
  have a: "?alts = TIsInstance (if pep \<noteq> [] then pith_curr_assign_expr hm else pith_curr_expr hm)
                     (length (func_wrapper_scope hm)) #
                   map TChild [length (hints_queue hm)..<length (hints_queue hm) + length pep]"
    using assms(3) len by (simp add: union_alternatives_def)
  have q: "map child_hint_or_sane (drop (length (hints_queue hm)) (hints_queue hm')) = set_iter pep"
    unfolding r(2) using pep_child_metas_hints[of hm "nonpep \<noteq> []" "set_iter pep"]
    by simp
  have c: "\<forall>isinst child.
              check_holds isinst child (func_curr_code hm') =
                Some (isinst (if pep \<noteq> [] then pith_curr_assign_expr hm else pith_curr_expr hm)
                        (length (func_wrapper_scope hm)) \<or>
                      list_ex child [length (hints_queue hm)..<length (hints_queue hm) + length pep])"
    unfolding check_holds_def p a
    by (simp add: list_ex_iff)
  have sets: "set nonpep =
             get_hint_or_sane_hint ` {c \<in> set flat. \<not> is_hint_pep (get_hint_or_sane_hint c)}"
    "set pep = {c \<in> set flat. is_hint_pep (get_hint_or_sane_hint c)}"
    using filter_childs_sets[OF assms(2)] by auto
  from r(1) p[unfolded a] r(3) q c sets show ?thesis by blast
qed

lemma pith_exprs_of_append:
  "pith_exprs_of Q (xs @ ys) = pith_exprs_of Q xs @ pith_exprs_of Q ys"
proof (induction xs)
  case Nil
  then show ?case by simp
next
  case (Cons t xs)
  then show ?case by (cases t) simp_all
qed

lemma pith_exprs_of_format:
  "pith_exprs_of Q (format_indent_curr ind xs) = pith_exprs_of Q xs"
proof (induction xs)
  case Nil
  then show ?case by (simp add: format_indent_curr_def)
next
  case (Cons t xs)
  then show ?case by (cases t) (simp_all add: format_indent_curr_def)
qed

lemma pith_exprs_of_snippets:
  "pith_exprs_of Q (snippets alts) = pith_exprs_of Q alts"
proof (induction alts)
  case Nil
  then show ?case by (simp add: snippets_def)
next
  case (Cons a alts)
  have "snippets (a # alts) = [TLine, a, TOr] @ snippets alts" by (simp add: snippets_def)
  with Cons show ?case by (cases a) (simp_all add: pith_exprs_of_append)
qed

lemma pith_exprs_of_butlast_snippets:
  "pith_exprs_of Q (butlast (snippets alts)) = pith_exprs_of Q alts"
proof (cases "alts = []")
  case True
  then show ?thesis by (simp add: snippets_def)
next
  case False
  then have l: "last (snippets alts) = TOr"
    by (induction alts rule: list_nonempty_induct) (simp_all add: snippets_def)
  have "snippets alts = butlast (snippets alts) @ [last (snippets alts)]"
    using snippets_nonempty[OF False] by simp
  then have "pith_exprs_of Q (snippets alts) =
      pith_exprs_of Q (butlast (snippets alts)) @ pith_exprs_of Q [TOr]"
    using l pith_exprs_of_append by metis
  then show ?thesis by (simp add: pith_exprs_of_snippets)
qed

lemma pith_exprs_of_children:
  assumes "\<And>j. j < m \<Longrightarrow> q + j < length Q \<and> child_pith_expr (Q ! (q + j)) = f j"
  shows "pith_exprs_of Q (map TChild [q..<q + m]) = map f [0..<m]"
  using assms
proof (induction m)
  case 0
  then show ?case by simp
next
  case (Suc m)
  have "pith_exprs_of Q (map TChild [q..<q + m]) = map f [0..<m]"
    using Suc.IH Suc.prems by simp
  moreover have "q + m < length Q \<and> child_pith_expr (Q ! (q + m)) = f m"
    using Suc.prems[of m] by simp
  ultimately show ?case by (simp add: pith_exprs_of_append)
qed

lemma map_assign_var:
  "map (\<lambda>j. if b \<or> j \<noteq> 0 then v else a) [0..<m] =
     (if b then replicate m v else if m = 0 then [] else a # replicate (m - 1) v)"
proof (cases m)
  case 0
  then show ?thesis by simp
next
  case (Suc n)
  have "[0..<Suc n] = 0 # map Suc [0..<n]"
    by (simp add: upt_conv_Cons map_Suc_upt del: upt_Suc)
  then show ?thesis
    unfolding Suc by (simp add: map_replicate_const comp_def del: upt_Suc)
qed

text \<open>
  Claim C6. The pith expressions of the generated sub-expressions, in the order of the
  code: with classes and PEP-compliant children, the assignment expression in the
  membership test and the name of the variable in every child; with classes only, the
  plain pith expression and no assignment; with PEP-compliant children only, the
  assignment expression in the first child and the name of the variable in every later
  one. The assignment expression occurs at most once, and first.
\<close>

theorem union_pith_assigned_once:
  assumes "get_hint_pep484604_union_args_flattened sanify hm w = (Inr flat, w1)"
    and "filter_childs flat ([], []) = (nonpep, pep)"
    and "distinct (set_iter pep) \<and> set (set_iter pep) = set pep"
  shows "\<exists>hm' w'. make_hint_pep484604_check_expr sanify set_iter hm w = (Inr (), hm', w') \<and>
           pith_exprs_of (hints_queue hm') (func_curr_code hm') =
             (if nonpep \<noteq> [] then
                (if pep \<noteq> []
                   then pith_curr_assign_expr hm # replicate (length pep) (pith_curr_var_name hm)
                   else [pith_curr_expr hm])
              else
                (if pep \<noteq> []
                   then pith_curr_assign_expr hm # replicate (length pep - 1) (pith_curr_var_name hm)
                   else []))"
proof -
  let ?m = "length (set_iter pep)"
  let ?alts = "union_alternatives hm nonpep pep ?m"
  let ?q = "length (hints_queue hm)"
  let ?f = "\<lambda>j. if nonpep \<noteq> [] \<or> j \<noteq> 0 then pith_curr_var_name hm else pith_curr_assign_expr hm"
  have len: "?m = length pep"
    by (rule set_iter_length[where set_iter = set_iter, OF assms(2,3)])
  from make_code[OF assms(1,2), of set_iter]
  obtain hm' w' where r: "make_hint_pep484604_check_expr sanify set_iter hm w = (Inr (), hm', w')"
    "hints_queue hm' = hints_queue hm @
             map (\<lambda>(j, c). pep_child_meta hm (nonpep \<noteq> []) j c) (zip [0..<?m] (set_iter pep))"
    "func_curr_code hm' =
             (if ?alts = [] then [TOpen]
              else format_indent_curr (indent_curr hm)
                     (TOpen # butlast (snippets ?alts) @ [TLine, TClose]))"
    by blast
  have code: "pith_exprs_of (hints_queue hm') (func_curr_code hm') =
      pith_exprs_of (hints_queue hm') ?alts"
  proof (cases "?alts = []")
    case True
    then show ?thesis by (simp add: r(3))
  next
    case False
    have "TOpen # butlast (snippets ?alts) @ [TLine, TClose] =
        [TOpen] @ butlast (snippets ?alts) @ [TLine, TClose]" by simp
    then show ?thesis
      using False
      by (simp add: r(3) pith_exprs_of_format pith_exprs_of_append
          pith_exprs_of_butlast_snippets del: append.simps)
  qed
  have kids: "pith_exprs_of (hints_queue hm') (map TChild [?q..<?q + ?m]) = map ?f [0..<?m]"
  proof (rule pith_exprs_of_children)
    fix j assume j: "j < ?m"
    then have "(hints_queue hm') ! (?q + j) =
        pep_child_meta hm (nonpep \<noteq> []) j (set_iter pep ! j)"
      unfolding r(2) by (simp add: nth_append)
    with j show "?q + j < length (hints_queue hm') \<and>
        child_pith_expr (hints_queue hm' ! (?q + j)) = ?f j"
      unfolding r(2) by (simp add: pep_child_meta_def)
  qed
  have "pith_exprs_of (hints_queue hm') ?alts =
      (if nonpep \<noteq> []
         then [if pep \<noteq> [] then pith_curr_assign_expr hm else pith_curr_expr hm] else []) @
      map ?f [0..<?m]"
    unfolding union_alternatives_def
    by (simp add: pith_exprs_of_append kids)
  also have "\<dots> = (if nonpep \<noteq> [] then
                (if pep \<noteq> []
                   then pith_curr_assign_expr hm # replicate (length pep) (pith_curr_var_name hm)
                   else [pith_curr_expr hm])
              else
                (if pep \<noteq> []
                   then pith_curr_assign_expr hm # replicate (length pep - 1) (pith_curr_var_name hm)
                   else []))"
    unfolding map_assign_var len by simp
  finally show ?thesis using r(1) code by auto
qed


lemma flat_mixed:
  "flattened_outcome sanify_hint_child hm_mixed =
     Inr [Bare (Generic ''list'' [Leaf ''int'']), Bare (Leaf ''int''),
          Bare (Generic ''set'' [Leaf ''str'']), Bare (Leaf ''str'')]"
  by (simp add: hm_mixed_def hint_eval)

lemma filter_mixed:
  "filter_childs [Bare (Generic ''list'' [Leaf ''int'']), Bare (Leaf ''int''),
          Bare (Generic ''set'' [Leaf ''str'']), Bare (Leaf ''str'')] ([], []) =
     ([Leaf ''int'', Leaf ''str''],
      [Bare (Generic ''list'' [Leaf ''int'']), Bare (Generic ''set'' [Leaf ''str''])])"
  by (simp add: set_add_def Let_def)

lemma hm_mixed_fields:
  "pith_curr_assign_expr hm_mixed = ''pith_1 := pith_0''"
  "pith_curr_var_name hm_mixed = ''pith_1''"
  "pith_curr_expr hm_mixed = ''pith_0''"
  "func_wrapper_scope hm_mixed = []"
  "hints_queue hm_mixed = []"
  by (simp_all add: hm_mixed_def hints_meta_of_def)

text \<open>
  A union of two classes and two generics, its set of PEP-compliant children iterated in
  the reverse of the insertion order.
\<close>

theorem union_check_or_joined_witness:
  "fst (get_hint_pep484604_union_args_flattened sanify_hint_child hm_mixed world_init) =
     Inr [Bare (Generic ''list'' [Leaf ''int'']), Bare (Leaf ''int''),
          Bare (Generic ''set'' [Leaf ''str'']), Bare (Leaf ''str'')] \<and>
   fst (make_hint_pep484604_check_expr sanify_hint_child rev hm_mixed world_init) = Inr () \<and>
   parse_check (filter (\<lambda>t. \<not> is_layout t)
      (func_curr_code (fst (snd
         (make_hint_pep484604_check_expr sanify_hint_child rev hm_mixed world_init))))) =
     Some [TIsInstance ''pith_1 := pith_0'' 0, TChild 0, TChild 1] \<and>
   func_wrapper_scope (fst (snd
         (make_hint_pep484604_check_expr sanify_hint_child rev hm_mixed world_init))) =
     [[Leaf ''int'', Leaf ''str'']] \<and>
   map child_hint_or_sane (hints_queue (fst (snd
         (make_hint_pep484604_check_expr sanify_hint_child rev hm_mixed world_init)))) =
     [Bare (Generic ''set'' [Leaf ''str'']), Bare (Generic ''list'' [Leaf ''int''])] \<and>
   check_holds (\<lambda>p t. False) (\<lambda>k. k = 1)
      (func_curr_code (fst (snd
         (make_hint_pep484604_check_expr sanify_hint_child rev hm_mixed world_init)))) = Some True \<and>
   check_holds (\<lambda>p t. False) (\<lambda>k. False)
      (func_curr_code (fst (snd
         (make_hint_pep484604_check_expr sanify_hint_child rev hm_mixed world_init)))) = Some False"
proof -
  let ?flat = "[Bare (Generic ''list'' [Leaf ''int'']), Bare (Leaf ''int''),
          Bare (Generic ''set'' [Leaf ''str'']), Bare (Leaf ''str'')]"
  let ?pep = "[Bare (Generic ''list'' [Leaf ''int'']), Bare (Generic ''set'' [Leaf ''str''])]"
  have g: "fst (get_hint_pep484604_union_args_flattened sanify_hint_child hm_mixed world_init) =
      Inr ?flat"
    using getter_fst[OF memo_ok_init, of sanify_hint_child hm_mixed] flat_mixed by simp
  have ne: "[Leaf ''int'', Leaf ''str''] \<noteq> []" by simp
  have it: "distinct (rev ?pep) \<and> set (rev ?pep) = set ?pep" by auto
  from union_check_or_joined[where set_iter = rev and pep = ?pep,
      OF getter_pair[OF memo_ok_init flat_mixed] filter_mixed ne it]
  obtain hm' w' where r:
    "make_hint_pep484604_check_expr sanify_hint_child rev hm_mixed world_init = (Inr (), hm', w')"
    "parse_check (filter (\<lambda>t. \<not> is_layout t) (func_curr_code hm')) =
       Some [TIsInstance ''pith_1 := pith_0'' 0, TChild 0, TChild 1]"
    "func_wrapper_scope hm' = [[Leaf ''int'', Leaf ''str'']]"
    "map child_hint_or_sane (hints_queue hm') = rev ?pep"
    "\<And>isinst child. check_holds isinst child (func_curr_code hm') =
       Some (isinst ''pith_1 := pith_0'' 0 \<or> list_ex child [0..<2])"
    unfolding hm_mixed_fields by (auto simp: upt_conv_Cons)
  have u: "[0..<2] = [0, Suc 0]" by (simp add: upt_conv_Cons)
  show ?thesis
    using g r(2,3,4) by (simp add: r(1) r(5) u)
qed

lemma flat_pep_only:
  "flattened_outcome sanify_hint_child hm_pep_only =
     Inr [Bare (Generic ''list'' [Leaf ''int'']), Bare (Generic ''set'' [Leaf ''str''])]"
  by (simp add: hm_pep_only_def hint_eval)

lemma filter_pep_only:
  "filter_childs [Bare (Generic ''list'' [Leaf ''int'']), Bare (Generic ''set'' [Leaf ''str''])]
      ([], []) =
     ([], [Bare (Generic ''list'' [Leaf ''int'']), Bare (Generic ''set'' [Leaf ''str''])])"
  by (simp add: set_add_def Let_def)

lemma flat_int_str:
  "flattened_outcome sanify_hint_child hm_int_str = Inr [Bare (Leaf ''int''), Bare (Leaf ''str'')]"
  by (simp add: hm_int_str_def hint_eval)

lemma filter_int_str:
  "filter_childs [Bare (Leaf ''int''), Bare (Leaf ''str'')] ([], []) =
     ([Leaf ''int'', Leaf ''str''], [])"
  by (simp add: set_add_def Let_def)

lemma hm_pep_only_fields:
  "pith_curr_assign_expr hm_pep_only = ''pith_1 := pith_0''"
  "pith_curr_var_name hm_pep_only = ''pith_1''"
  "pith_curr_expr hm_pep_only = ''pith_0''"
  by (simp_all add: hm_pep_only_def hints_meta_of_def)

lemma hm_int_str_fields:
  "pith_curr_assign_expr hm_int_str = ''pith_1 := pith_0''"
  "pith_curr_var_name hm_int_str = ''pith_1''"
  "pith_curr_expr hm_int_str = ''pith_0''"
  by (simp_all add: hm_int_str_def hints_meta_of_def)

text \<open>
  The three shapes of a union: classes and generics, generics only, classes only.
\<close>

theorem union_pith_assigned_once_witness:
  "fst (make_hint_pep484604_check_expr sanify_hint_child rev hm_mixed world_init) = Inr () \<and>
   pith_exprs_of
     (hints_queue (fst (snd
        (make_hint_pep484604_check_expr sanify_hint_child rev hm_mixed world_init))))
     (func_curr_code (fst (snd
        (make_hint_pep484604_check_expr sanify_hint_child rev hm_mixed world_init)))) =
     [''pith_1 := pith_0'', ''pith_1'', ''pith_1''] \<and>
   pith_exprs_of
     (hints_queue (fst (snd
        (make_hint_pep484604_check_expr sanify_hint_child rev hm_pep_only world_init))))
     (func_curr_code (fst (snd
        (make_hint_pep484604_check_expr sanify_hint_child rev hm_pep_only world_init)))) =
     [''pith_1 := pith_0'', ''pith_1''] \<and>
   pith_exprs_of
     (hints_queue (fst (snd
        (make_hint_pep484604_check_expr sanify_hint_child rev hm_int_str world_init))))
     (func_curr_code (fst (snd
        (make_hint_pep484604_check_expr sanify_hint_child rev hm_int_str world_init)))) =
     [''pith_0'']"
proof -
  let ?pep = "[Bare (Generic ''list'' [Leaf ''int'']), Bare (Generic ''set'' [Leaf ''str''])]"
  have it: "distinct (rev ?pep) \<and> set (rev ?pep) = set ?pep" by auto
  have it0: "distinct (rev ([] :: hint_or_sane list)) \<and>
      set (rev ([] :: hint_or_sane list)) = set []" by simp
  from union_pith_assigned_once[where set_iter = rev and pep = ?pep,
      OF getter_pair[OF memo_ok_init flat_mixed] filter_mixed it]
  obtain hm1 w1 where a:
    "make_hint_pep484604_check_expr sanify_hint_child rev hm_mixed world_init = (Inr (), hm1, w1)"
    "pith_exprs_of (hints_queue hm1) (func_curr_code hm1) =
       [''pith_1 := pith_0'', ''pith_1'', ''pith_1'']"
    unfolding hm_mixed_fields by (auto simp: numeral_2_eq_2)
  from union_pith_assigned_once[where set_iter = rev and pep = ?pep,
      OF getter_pair[OF memo_ok_init flat_pep_only] filter_pep_only it]
  obtain hm2 w2 where b:
    "make_hint_pep484604_check_expr sanify_hint_child rev hm_pep_only world_init = (Inr (), hm2, w2)"
    "pith_exprs_of (hints_queue hm2) (func_curr_code hm2) = [''pith_1 := pith_0'', ''pith_1'']"
    unfolding hm_pep_only_fields by (auto simp: numeral_2_eq_2)
  from union_pith_assigned_once[where set_iter = rev and pep = "[]",
      OF getter_pair[OF memo_ok_init flat_int_str] filter_int_str it0]
  obtain hm3 w3 where c:
    "make_hint_pep484604_check_expr sanify_hint_child rev hm_int_str world_init = (Inr (), hm3, w3)"
    "pith_exprs_of (hints_queue hm3) (func_curr_code hm3) = [''pith_0'']"
    unfolding hm_int_str_fields by auto
  show ?thesis by (simp add: a b c)
qed






lemma make_sanify_error:
  assumes "memo_ok sanify w"
    and "get_hint_pep_args (hint (hint_curr_meta hm)) \<noteq> []"
    and "flattened_outcome sanify hm = Inl e"
  shows "make_hint_pep484604_check_expr sanify set_iter hm w =
           (Inl e, hm,
            w\<lparr> stdout := stdout w @ [hint_curr_meta hm],
               list_pool := snd (acquire_object_typed (list_pool w)) \<rparr>)"
proof -
  have n: "map_of (flattened_memo w) hm = None"
  proof (cases "map_of (flattened_memo w) hm")
    case (Some r)
    from memo_ok_lookup[OF assms(1) Some] assms(3) show ?thesis by simp
  qed simp
  from assms(2,3) have l: "flatten_loop sanify hm (get_hint_pep_args (hint (hint_curr_meta hm))) 0 [] = Inl e"
    by (simp add: flattened_outcome_def)
  show ?thesis
    unfolding make_hint_pep484604_check_expr_def get_hint_pep484604_union_args_flattened_def
      get_hint_pep484604_union_args_flattened_body_def
    using n l assms(2)
    by (simp add: Let_def split: prod.splits)
qed

text \<open>
  A union of two classes and two generics, on the initial state: no object is out on loan
  before or after.
\<close>

theorem pools_released_on_return_witness:
  "fst (make_hint_pep484604_check_expr sanify_hint_child rev hm_mixed world_init) = Inr () \<and>
   pool_borrowed (list_pool world_init) = [] \<and>
   pool_borrowed (set_pool world_init) = [] \<and>
   pool_borrowed (list_pool (snd (snd
      (make_hint_pep484604_check_expr sanify_hint_child rev hm_mixed world_init)))) = [] \<and>
   pool_borrowed (set_pool (snd (snd
      (make_hint_pep484604_check_expr sanify_hint_child rev hm_mixed world_init)))) = []"
proof -
  from make_success[where set_iter = rev,
      OF getter_pair[OF memo_ok_init flat_mixed] filter_mixed]
  have m:
    "fst (make_hint_pep484604_check_expr sanify_hint_child rev hm_mixed world_init) = Inr ()"
    by force
  then have e: "make_hint_pep484604_check_expr sanify_hint_child rev hm_mixed world_init =
      (Inr (),
       fst (snd (make_hint_pep484604_check_expr sanify_hint_child rev hm_mixed world_init)),
       snd (snd (make_hint_pep484604_check_expr sanify_hint_child rev hm_mixed world_init)))"
    by (simp add: prod_eq_iff)
  have i: "pool_borrowed (list_pool world_init) = []" "pool_borrowed (set_pool world_init) = []"
    by (simp_all add: world_init_def pool_borrowed_def)
  from pools_released_on_return[OF e] m i show ?thesis by simp
qed

text \<open>
  Claim C3 as stated fails: there is no exception handler around the loop, so when the
  sanification of a child raises, the pooled list acquired before the loop is not
  released. Here the second child is unsupported, and list 0 stays out on loan.
\<close>

theorem sanify_exception_leaves_list_borrowed:
  "make_hint_pep484604_check_expr sanify_hint_child (\<lambda>xs. xs) hm_unsupported world_init =
     (Inl (SanifyException ''parameter x Foo''), hm_unsupported,
      world_init\<lparr> stdout := [hint_curr_meta hm_unsupported],
                  list_pool := \<lparr> pool_free = [], pool_fresh = 1 \<rparr> \<rparr>) \<and>
   pool_borrowed (list_pool world_init) = [] \<and>
   pool_borrowed \<lparr> pool_free = [], pool_fresh = 1 \<rparr> = [0]"
proof -
  have o: "flattened_outcome sanify_hint_child hm_unsupported =
      Inl (SanifyException ''parameter x Foo'')"
    by (simp add: hm_unsupported_def hint_eval)
  have c: "get_hint_pep_args (hint (hint_curr_meta hm_unsupported)) \<noteq> []"
    by (simp add: hm_unsupported_def hints_meta_of_def)
  have w: "world_init\<lparr> stdout := stdout world_init @ [hint_curr_meta hm_unsupported],
               list_pool := snd (acquire_object_typed (list_pool world_init)) \<rparr> =
     world_init\<lparr> stdout := [hint_curr_meta hm_unsupported],
                  list_pool := \<lparr> pool_free = [], pool_fresh = 1 \<rparr> \<rparr>"
    by (simp add: world_init_def acquire_object_typed_def)
  show ?thesis
    using make_sanify_error[OF memo_ok_init c o, of "\<lambda>xs. xs" ]
    by (simp add: w) (simp add: world_init_def pool_borrowed_def)
qed

end
